theory Spec2Isabelle
  imports Main "HOL-Library.Word" "HOL-Library.Signed_Division"
begin

unbundle bit_operations_syntax

section \<open>The static evaluator of \<^verbatim>\<open>evaluate.cpp\<close>\<close>

text \<open>
  This theory embeds the class \<^verbatim>\<open>Evaluation\<close> of \<^verbatim>\<open>src/evaluate.cpp\<close>: its data
  members become the record \<open>evaluation\<close>, its member functions become functions that take
  the object and return the result (and the updated object when they write to it). The
  template parameters \<^verbatim>\<open>Us\<close> and \<^verbatim>\<open>Pt\<close> are ordinary arguments. All variant blocks
  (\<^verbatim>\<open>#ifdef ANTI\<close> ... \<^verbatim>\<open>#ifdef TWOKINGS\<close>) are compiled in, as the tables indexed by
  \<^verbatim>\<open>VARIANT_NB\<close> require. The tracing instance (\<^verbatim>\<open>T = TRACE\<close>) only copies scores into
  a table of doubles; the embedding is the instance \<^verbatim>\<open>T = NO_TRACE\<close> used by
  \<^verbatim>\<open>Eval::evaluate\<close>.

  \<^verbatim>\<open>int\<close> and \<^verbatim>\<open>Value\<close> are modelled as \<open>int\<close>, without wrap-around; for the
  interpolation at the end of \<^verbatim>\<open>value\<close> the 32-bit range is shown to suffice
  (\<open>interpolation_in_int32\<close>). C++ division truncates towards zero and is written
  \<open>sdiv\<close>. \<^verbatim>\<open>assert\<close> is compiled out of release builds: the functions are the release
  code, and each assertion is a predicate of its own.
\<close>

subsection \<open>Enumerations and scores\<close>

text \<open>
  Modelled from the spec: \<^verbatim>\<open>types.h\<close> is not part of the sources. Colours, piece types
  (with the synthetic slots \<^verbatim>\<open>ALL_PIECES\<close>, which shares index 0 with
  \<^verbatim>\<open>NO_PIECE_TYPE\<close>, and \<^verbatim>\<open>QUEEN_DIAGONAL\<close>) and the thirteen variants, in the order
  in which the per-variant tables of \<^verbatim>\<open>evaluate.cpp\<close> list them.
\<close>

datatype color = WHITE | BLACK

datatype piece_type =
  ALL_PIECES | PAWN | KNIGHT | BISHOP | ROOK | QUEEN | KING | QUEEN_DIAGONAL

abbreviation NO_PIECE_TYPE :: piece_type where
  "NO_PIECE_TYPE \<equiv> ALL_PIECES"

datatype piece = NO_PIECE | make_piece color piece_type

datatype variant =
  CHESS_VARIANT | ANTI_VARIANT | ATOMIC_VARIANT | CRAZYHOUSE_VARIANT | EXTINCTION_VARIANT
| GRID_VARIANT | HORDE_VARIANT | KOTH_VARIANT | LOSERS_VARIANT | RACE_VARIANT
| RELAY_VARIANT | THREECHECK_VARIANT | TWOKINGS_VARIANT

datatype direction =
  NORTH | SOUTH | EAST | WEST | NORTH_EAST | SOUTH_EAST | SOUTH_WEST | NORTH_WEST

type_synonym bitboard = "64 word"

type_synonym square = nat

text \<open>The operator \<^verbatim>\<open>~\<close> on colours.\<close>

fun opposite :: "color \<Rightarrow> color" where
  "opposite WHITE = BLACK"
| "opposite BLACK = WHITE"

fun color_index :: "color \<Rightarrow> nat" where
  "color_index WHITE = 0"
| "color_index BLACK = 1"

text \<open>The numeric value of a piece type, used where the source indexes a table by it.\<close>

fun pt_index :: "piece_type \<Rightarrow> nat" where
  "pt_index ALL_PIECES = 0"
| "pt_index PAWN = 1"
| "pt_index KNIGHT = 2"
| "pt_index BISHOP = 3"
| "pt_index ROOK = 4"
| "pt_index QUEEN = 5"
| "pt_index KING = 6"
| "pt_index QUEEN_DIAGONAL = 7"

fun type_of :: "piece \<Rightarrow> piece_type" where
  "type_of NO_PIECE = NO_PIECE_TYPE"
| "type_of (make_piece c pt) = pt"

text \<open>
  Modelled from the spec: a \<^verbatim>\<open>Score\<close> is a pair of a middlegame and an endgame value,
  added and subtracted component by component and multiplied by small integers
  (\<^verbatim>\<open>types.h\<close> packs the pair into one \<^verbatim>\<open>int\<close>).
\<close>

datatype score = make_score (mg_value: int) (eg_value: int)

abbreviation S :: "int \<Rightarrow> int \<Rightarrow> score" where
  "S \<equiv> make_score"

instantiation score :: "{zero, plus, minus, uminus}"
begin

definition zero_score_def:
  "0 = make_score 0 0"

definition plus_score_def:
  "a + b = make_score (mg_value a + mg_value b) (eg_value a + eg_value b)"

definition minus_score_def:
  "a - b = make_score (mg_value a - mg_value b) (eg_value a - eg_value b)"

definition uminus_score_def:
  "- a = make_score (- mg_value a) (- eg_value a)"

instance ..

end

abbreviation SCORE_ZERO :: score where
  "SCORE_ZERO \<equiv> 0"

text \<open>\<^verbatim>\<open>operator*(Score, int)\<close> and \<^verbatim>\<open>operator/(Score, int)\<close>.\<close>

definition score_mul :: "score \<Rightarrow> int \<Rightarrow> score" where
  "score_mul s i = make_score (mg_value s * i) (eg_value s * i)"

definition score_div :: "score \<Rightarrow> int \<Rightarrow> score" where
  "score_div s i = make_score (mg_value s sdiv i) (eg_value s sdiv i)"

text \<open>
  Modelled from the spec: the game phase runs from 0 to 128 (\<^verbatim>\<open>PHASE_MIDGAME\<close>) and the
  normal scale factor is 64; \<^verbatim>\<open>VALUE_DRAW\<close> is 0, and \<^verbatim>\<open>SQ_NONE\<close> is the value that
  follows the 64 squares (\<^verbatim>\<open>types.h\<close> is not part of the sources).
\<close>

definition PHASE_MIDGAME :: int where
  "PHASE_MIDGAME = 128"

definition SCALE_FACTOR_NORMAL :: int where
  "SCALE_FACTOR_NORMAL = 64"

definition VALUE_DRAW :: int where
  "VALUE_DRAW = 0"

definition SQ_NONE :: square where
  "SQ_NONE = 64"

text \<open>
  A C array: \<open>tab xs i\<close> is element \<open>i\<close>; elements that the initializer of a sized array
  leaves out are zero-initialized.
\<close>

definition tab :: "'a::zero list \<Rightarrow> nat \<Rightarrow> 'a" where
  "tab xs i = (if i < length xs then xs ! i else 0)"

definition tab2 :: "'a::zero list list \<Rightarrow> nat \<Rightarrow> nat \<Rightarrow> 'a" where
  "tab2 xss i j = (if i < length xss then tab (xss ! i) j else 0)"

subsection \<open>Bitboard primitives\<close>

text \<open>
  Modelled from the spec: \<^verbatim>\<open>bitboard.h\<close> is not part of the sources. A bitboard has one
  bit per square, square \<open>8 * rank + file\<close> at bit \<open>8 * rank + file\<close> (a1 is bit 0, h8 is
  bit 63); \<^verbatim>\<open>evaluate_space\<close> and \<^verbatim>\<open>evaluate_king\<close> rely on this layout when they shift
  by 8, 16, 32 and 4 bits.
\<close>

definition FileABB :: bitboard where "FileABB = 0x0101010101010101"
definition FileBBB :: bitboard where "FileBBB = push_bit 1 FileABB"
definition FileCBB :: bitboard where "FileCBB = push_bit 2 FileABB"
definition FileDBB :: bitboard where "FileDBB = push_bit 3 FileABB"
definition FileEBB :: bitboard where "FileEBB = push_bit 4 FileABB"
definition FileFBB :: bitboard where "FileFBB = push_bit 5 FileABB"
definition FileGBB :: bitboard where "FileGBB = push_bit 6 FileABB"
definition FileHBB :: bitboard where "FileHBB = push_bit 7 FileABB"

definition Rank1BB :: bitboard where "Rank1BB = 0xFF"
definition Rank2BB :: bitboard where "Rank2BB = push_bit 8 Rank1BB"
definition Rank3BB :: bitboard where "Rank3BB = push_bit 16 Rank1BB"
definition Rank4BB :: bitboard where "Rank4BB = push_bit 24 Rank1BB"
definition Rank5BB :: bitboard where "Rank5BB = push_bit 32 Rank1BB"
definition Rank6BB :: bitboard where "Rank6BB = push_bit 40 Rank1BB"
definition Rank7BB :: bitboard where "Rank7BB = push_bit 48 Rank1BB"
definition Rank8BB :: bitboard where "Rank8BB = push_bit 56 Rank1BB"

definition AllSquares :: bitboard where "AllSquares = NOT 0"

text \<open>
  Modelled from the spec: \<^verbatim>\<open>popcount\<close> is the number of squares of a bitboard, and
  \<^verbatim>\<open>more_than_one\<close> clears the least significant bit and tests what is left.
\<close>

definition popcount :: "bitboard \<Rightarrow> nat" where
  "popcount b = length (filter (bit b) [0..<64])"

definition more_than_one :: "bitboard \<Rightarrow> bool" where
  "more_than_one b = (b AND (b - 1) \<noteq> 0)"

text \<open>
  Modelled from the spec: \<^verbatim>\<open>pop_lsb\<close> removes and returns the least significant
  square, so a loop \<^verbatim>\<open>while (b) { s = pop_lsb(&b); ... }\<close> visits the squares of \<open>b\<close>
  from the least significant bit upwards.
\<close>

definition pop_lsb_order :: "bitboard \<Rightarrow> square list" where
  "pop_lsb_order b = filter (bit b) [0..<64]"

text \<open>
  Modelled from the spec: squares, files and ranks count from 0; the rank and the square
  relative to a colour mirror the board for Black; distances are Chebyshev distances.
\<close>

definition square_bb :: "square \<Rightarrow> bitboard" where
  "square_bb s = push_bit s 1"

definition file_of :: "square \<Rightarrow> nat" where
  "file_of s = s mod 8"

definition rank_of :: "square \<Rightarrow> nat" where
  "rank_of s = s div 8"

definition relative_rank :: "color \<Rightarrow> square \<Rightarrow> nat" where
  "relative_rank c s = rank_of s XOR (color_index c * 7)"

definition relative_square :: "color \<Rightarrow> square \<Rightarrow> square" where
  "relative_square c s = s XOR (color_index c * 56)"

definition file_bb :: "nat \<Rightarrow> bitboard" where
  "file_bb f = push_bit f FileABB"

definition rank_bb :: "nat \<Rightarrow> bitboard" where
  "rank_bb r = push_bit (8 * r) Rank1BB"

definition distance_File :: "square \<Rightarrow> square \<Rightarrow> int" where
  "distance_File x y = \<bar>int (file_of x) - int (file_of y)\<bar>"

definition distance_Rank :: "square \<Rightarrow> square \<Rightarrow> int" where
  "distance_Rank x y = \<bar>int (rank_of x) - int (rank_of y)\<bar>"

definition distance :: "square \<Rightarrow> square \<Rightarrow> int" where
  "distance x y = max (distance_File x y) (distance_Rank x y)"

fun direction_value :: "direction \<Rightarrow> int" where
  "direction_value NORTH = 8"
| "direction_value SOUTH = - 8"
| "direction_value EAST = 1"
| "direction_value WEST = - 1"
| "direction_value NORTH_EAST = 9"
| "direction_value SOUTH_EAST = - 7"
| "direction_value SOUTH_WEST = - 9"
| "direction_value NORTH_WEST = 7"

text \<open>
  Modelled from the spec: \<^verbatim>\<open>s + d\<close> for a square and a sum of directions, and the
  directional shifts of a bitboard, which drop what leaves the board.
\<close>

definition sq_plus :: "square \<Rightarrow> int \<Rightarrow> square" where
  "sq_plus s d = nat (int s + d)"

definition pawn_push :: "color \<Rightarrow> int" where
  "pawn_push c = (if c = WHITE then direction_value NORTH else direction_value SOUTH)"

fun shift :: "direction \<Rightarrow> bitboard \<Rightarrow> bitboard" where
  "shift NORTH b = push_bit 8 b"
| "shift SOUTH b = drop_bit 8 b"
| "shift NORTH_EAST b = push_bit 9 (b AND NOT FileHBB)"
| "shift SOUTH_EAST b = drop_bit 7 (b AND NOT FileHBB)"
| "shift NORTH_WEST b = push_bit 7 (b AND NOT FileABB)"
| "shift SOUTH_WEST b = drop_bit 9 (b AND NOT FileABB)"
| "shift EAST b = 0"
| "shift WEST b = 0"

text \<open>
  Modelled from the spec: \<^verbatim>\<open>forward_file_bb(c, s)\<close> holds the squares of the file of \<open>s\<close>
  strictly in front of \<open>s\<close>, seen from \<open>c\<close>.
\<close>

definition forward_ranks_bb :: "color \<Rightarrow> nat \<Rightarrow> bitboard" where
  "forward_ranks_bb c r =
     (if c = WHITE then push_bit (8 * (r + 1)) (NOT 0) else NOT (push_bit (8 * r) (NOT 0)))"

definition forward_file_bb :: "color \<Rightarrow> square \<Rightarrow> bitboard" where
  "forward_file_bb c s = forward_ranks_bb c (rank_of s) AND file_bb (file_of s)"

text \<open>
  Modelled from the spec: \<^verbatim>\<open>DistanceRingBB[s][d]\<close> holds the squares at distance
  \<open>d + 1\<close> from \<open>s\<close>.
\<close>

definition DistanceRingBB :: "square \<Rightarrow> nat \<Rightarrow> bitboard" where
  "DistanceRingBB s d =
     fold (\<lambda>t b. if distance s t = int d + 1 then b OR square_bb t else b) [0..<64] 0"

text \<open>
  The constants at the head of \<^verbatim>\<open>evaluate.cpp\<close> (lines 34 to 41). \<^verbatim>\<open>KingFlank\<close> is
  indexed by the file of a square, which is below 8.
\<close>

definition Center :: bitboard where
  "Center = (FileDBB OR FileEBB) AND (Rank4BB OR Rank5BB)"

definition QueenSide :: bitboard where
  "QueenSide = FileABB OR FileBBB OR FileCBB OR FileDBB"

definition CenterFiles :: bitboard where
  "CenterFiles = FileCBB OR FileDBB OR FileEBB OR FileFBB"

definition KingSide :: bitboard where
  "KingSide = FileEBB OR FileFBB OR FileGBB OR FileHBB"

definition KingFlank :: "nat \<Rightarrow> bitboard" where
  "KingFlank f =
     [QueenSide, QueenSide, QueenSide, CenterFiles, CenterFiles, KingSide, KingSide, KingSide] ! f"

subsection \<open>Collaborators: position, pawn table, material table\<close>

text \<open>
  \<^verbatim>\<open>Position\<close>, \<^verbatim>\<open>Pawns::Entry\<close> and \<^verbatim>\<open>Material::Entry\<close> are defined outside
  \<^verbatim>\<open>evaluate.cpp\<close>. Each is a record with one field per query that the evaluator makes;
  a query with arguments is a function field. Nothing is assumed about how the answers
  relate to each other.
\<close>

record position =
  variant :: variant
  side_to_move :: color
  is_chess960 :: bool
  pieces :: bitboard
  pieces_c :: "color \<Rightarrow> bitboard"
  pieces_pt :: "piece_type \<Rightarrow> bitboard"
  pieces_pt_pt :: "piece_type \<Rightarrow> piece_type \<Rightarrow> bitboard"
  pieces_c_pt :: "color \<Rightarrow> piece_type \<Rightarrow> bitboard"
  pieces_c_pt_pt :: "color \<Rightarrow> piece_type \<Rightarrow> piece_type \<Rightarrow> bitboard"
  squares :: "color \<Rightarrow> piece_type \<Rightarrow> square list"
  square_KING :: "color \<Rightarrow> square"
  piece_on :: "square \<Rightarrow> piece"
  empty_sq :: "square \<Rightarrow> bool"
  count :: "color \<Rightarrow> piece_type \<Rightarrow> int"
  count_pt :: "piece_type \<Rightarrow> int"
  count_in_hand :: "color \<Rightarrow> piece_type \<Rightarrow> int"
  non_pawn_material_c :: "color \<Rightarrow> int"
  non_pawn_material :: int
  attacks_from :: "piece_type \<Rightarrow> square \<Rightarrow> bitboard"
  attackers_to :: "square \<Rightarrow> bitboard"
  pinned_pieces :: "color \<Rightarrow> bitboard"
  slider_blockers :: "bitboard \<Rightarrow> square \<Rightarrow> bitboard"
  grid_bb :: "square \<Rightarrow> bitboard"
  can_castle :: "color \<Rightarrow> bool"
  checks_given :: "color \<Rightarrow> nat"
  is_horde_color :: "color \<Rightarrow> bool"
  opposite_bishops :: bool
  pawn_passed :: "color \<Rightarrow> square \<Rightarrow> bool"
  psq_score :: score
  is_variant_end :: bool
  variant_result :: int

text \<open>
  Modelled from the spec: the variant is one tag, and \<^verbatim>\<open>is_anti()\<close>, \<^verbatim>\<open>is_atomic()\<close>, ...
  test the tag (\<^verbatim>\<open>position.h\<close> is not part of the sources).
\<close>

definition is_anti :: "position \<Rightarrow> bool" where
  "is_anti p = (variant p = ANTI_VARIANT)"

definition is_atomic :: "position \<Rightarrow> bool" where
  "is_atomic p = (variant p = ATOMIC_VARIANT)"

definition is_house :: "position \<Rightarrow> bool" where
  "is_house p = (variant p = CRAZYHOUSE_VARIANT)"

definition is_extinction :: "position \<Rightarrow> bool" where
  "is_extinction p = (variant p = EXTINCTION_VARIANT)"

definition is_grid :: "position \<Rightarrow> bool" where
  "is_grid p = (variant p = GRID_VARIANT)"

definition is_horde :: "position \<Rightarrow> bool" where
  "is_horde p = (variant p = HORDE_VARIANT)"

definition is_koth :: "position \<Rightarrow> bool" where
  "is_koth p = (variant p = KOTH_VARIANT)"

definition is_losers :: "position \<Rightarrow> bool" where
  "is_losers p = (variant p = LOSERS_VARIANT)"

definition is_race :: "position \<Rightarrow> bool" where
  "is_race p = (variant p = RACE_VARIANT)"

definition is_three_check :: "position \<Rightarrow> bool" where
  "is_three_check p = (variant p = THREECHECK_VARIANT)"

record pawns_entry =
  pawns_score :: score
  pawn_attacks :: "color \<Rightarrow> bitboard"
  pawn_attacks_span :: "color \<Rightarrow> bitboard"
  passed_pawns :: "color \<Rightarrow> bitboard"
  king_safety :: "color \<Rightarrow> square \<Rightarrow> score"
  semiopen_file :: "color \<Rightarrow> nat \<Rightarrow> bool"
  semiopen_side :: "color \<Rightarrow> nat \<Rightarrow> bool \<Rightarrow> bool"
  weak_unopposed :: "color \<Rightarrow> int"
  open_files :: int
  pawn_asymmetry :: int
  pawns_on_same_color_squares :: "color \<Rightarrow> square \<Rightarrow> int"

record material_entry =
  specialized_eval_exists :: bool
  specialized_evaluate :: int
  imbalance :: score
  scale_factor :: "color \<Rightarrow> int"
  game_phase :: int

text \<open>
  What \<^verbatim>\<open>evaluate.cpp\<close> uses of the other translation units: the two hash-table probes,
  the sliding attacks and line tables of \<^verbatim>\<open>bitboard.h\<close>, the piece values and the
  one-pawn scale factor of \<^verbatim>\<open>types.h\<close>, and the tunables \<^verbatim>\<open>Eval::Contempt\<close> and
  \<^verbatim>\<open>Eval::Tempo\<close>. They are parameters of the embedding.
\<close>

record globals =
  Material_probe :: "position \<Rightarrow> material_entry"
  Pawns_probe :: "position \<Rightarrow> pawns_entry"
  attacks_bb :: "piece_type \<Rightarrow> square \<Rightarrow> bitboard \<Rightarrow> bitboard"
  LineBB :: "square \<Rightarrow> square \<Rightarrow> bitboard"
  PseudoAttacks :: "piece_type \<Rightarrow> square \<Rightarrow> bitboard"
  KnightValueMg :: int
  BishopValueMg :: int
  BishopValueEg :: int
  RookValueMg :: int
  QueenValueMg :: int
  SCALE_FACTOR_ONEPAWN :: int
  Contempt :: score
  Tempo :: "variant \<Rightarrow> int"

subsection \<open>Parameter tables\<close>

text \<open>\<^verbatim>\<open>MobilityBonus\<close> (evaluate.cpp, lines 154 to 374), one entry per variant; rows are indexed by PieceType - 2.\<close>

definition MobilityBonus :: "variant \<Rightarrow> score list list" where
  "MobilityBonus v = (case v of
        CHESS_VARIANT \<Rightarrow> [ [ S (- 75) (- 76), S (- 57) (- 54), S (- 9) (- 28), S (- 2) (- 10), S 6 5, S 14 12, S 22 26, S 29 29, S 36 29 ], [ S (- 48) (- 59), S (- 20) (- 23), S 16 (- 3), S 26 13, S 38 24, S 51 42, S 55 54, S 63 57, S 63 65, S 68 73, S 81 78, S 81 86, S 91 88, S 98 97 ], [ S (- 58) (- 76), S (- 27) (- 18), S (- 15) 28, S (- 10) 55, S (- 5) 69, S (- 2) 82, S 9 112, S 16 118, S 30 132, S 29 142, S 32 155, S 38 165, S 46 166, S 48 169, S 58 171 ], [ S (- 39) (- 36), S (- 21) (- 15), S 3 8, S 3 18, S 14 34, S 22 54, S 28 61, S 41 73, S 43 79, S 48 92, S 56 94, S 60 104, S 60 113, S 66 120, S 67 123, S 70 126, S 71 133, S 73 136, S 79 140, S 88 143, S 88 148, S 99 166, S 102 170, S 102 175, S 106 184, S 109 191, S 113 206, S 116 212 ] ]
      | ANTI_VARIANT \<Rightarrow> [ [ S (- 150) (- 152), S (- 112) (- 108), S (- 18) (- 52), S (- 4) (- 20), S 12 10, S 30 22, S 44 52, S 60 56, S 72 58 ], [ S (- 96) (- 116), S (- 42) (- 38), S 32 (- 4), S 52 24, S 74 44, S 102 84, S 108 108, S 126 116, S 130 126, S 142 140, S 158 148, S 162 172, S 184 180, S 194 188 ], [ S (- 112) (- 156), S (- 50) (- 36), S (- 22) 52, S (- 10) 110, S (- 8) 140, S (- 2) 162, S 16 218, S 28 240, S 42 256, S 46 286, S 62 308, S 64 320, S 86 330, S 98 336, S 118 338 ], [ S (- 80) (- 70), S (- 50) (- 24), S 4 14, S 8 38, S 28 74, S 48 110, S 50 124, S 80 152, S 86 158, S 94 174, S 108 188, S 112 204, S 120 222, S 140 232, S 144 236, S 146 244, S 150 256, S 154 260, S 170 266, S 188 272, S 198 280, S 216 314, S 224 316, S 226 322, S 236 348, S 238 354, S 246 382, S 256 398 ] ]
      | ATOMIC_VARIANT \<Rightarrow> [ [ S (- 85) (- 78), S (- 78) (- 63), S (- 35) (- 40), S (- 2) (- 24), S 14 8, S 23 25, S 39 26, S 30 23, S 36 29 ], [ S (- 55) (- 64), S (- 17) (- 34), S 13 (- 9), S 24 20, S 22 25, S 57 38, S 32 52, S 67 66, S 52 52, S 57 74, S 73 77, S 85 81, S 92 90, S 110 86 ], [ S (- 60) (- 73), S (- 33) (- 28), S (- 18) 9, S (- 19) 30, S (- 19) 58, S 20 77, S 12 106, S 11 133, S 21 134, S 33 165, S 34 169, S 39 183, S 25 171, S 61 181, S 58 158 ], [ S (- 43) (- 43), S (- 14) (- 16), S (- 5) 1, S 0 23, S 6 24, S 24 58, S 20 55, S 31 67, S 47 90, S 28 79, S 47 89, S 69 104, S 64 111, S 75 128, S 72 114, S 48 132, S 58 130, S 76 134, S 84 124, S 109 131, S 114 143, S 103 140, S 105 146, S 109 165, S 116 156, S 127 176, S 130 174, S 129 204 ] ]
      | CRAZYHOUSE_VARIANT \<Rightarrow> [ [ S (- 126) (- 96), S (- 103) (- 31), S (- 90) (- 27), S (- 40) 3, S 0 3, S 4 0, S 20 12, S 15 33, S 50 46 ], [ S (- 156) (- 79), S (- 115) (- 43), S 42 (- 14), S 35 26, S 64 26, S 74 38, S 70 46, S 83 71, S 70 68, S 66 80, S 64 68, S 70 77, S 97 92, S 89 98 ], [ S (- 53) (- 53), S (- 22) (- 8), S (- 48) 30, S (- 14) 57, S (- 4) 77, S 11 87, S 7 115, S 12 123, S 27 120, S 6 140, S 55 156, S 18 161, S 51 161, S 54 171, S 52 166 ], [ S (- 26) (- 56), S (- 24) (- 14), S 7 14, S 8 15, S 18 34, S 14 41, S 28 58, S 33 66, S 40 70, S 47 74, S 50 100, S 52 106, S 59 111, S 50 95, S 60 115, S 61 126, S 75 144, S 82 119, S 95 137, S 102 138, S 100 142, S 119 154, S 129 156, S 107 156, S 111 177, S 115 181, S 124 197, S 124 199 ] ]
      | EXTINCTION_VARIANT \<Rightarrow> [ [ S (- 123) (- 90), S (- 91) (- 32), S (- 61) (- 29), S (- 38) 3, S 0 3, S 4 0, S 19 12, S 15 33, S 52 45 ], [ S (- 153) (- 80), S (- 112) (- 41), S 41 (- 14), S 35 24, S 62 26, S 75 41, S 72 48, S 85 74, S 74 65, S 66 79, S 64 69, S 73 80, S 107 92, S 96 101 ], [ S (- 59) (- 51), S (- 20) (- 8), S (- 54) 32, S (- 15) 54, S (- 4) 70, S 11 84, S 6 113, S 13 123, S 27 114, S 6 144, S 60 162, S 19 162, S 48 170, S 57 170, S 52 177 ], [ S (- 27) (- 56), S (- 24) (- 14), S 7 13, S 9 16, S 18 37, S 14 40, S 29 56, S 34 64, S 39 73, S 49 65, S 50 98, S 50 106, S 60 107, S 53 92, S 62 119, S 69 130, S 77 145, S 84 120, S 90 153, S 98 131, S 106 139, S 116 147, S 127 157, S 112 154, S 121 174, S 124 167, S 126 194, S 130 190 ] ]
      | GRID_VARIANT \<Rightarrow> [ [ S (- 75) (- 76), S (- 57) (- 54), S (- 9) (- 28), S (- 2) (- 10), S 6 5, S 14 12, S 22 26, S 29 29, S 36 29 ], [ S (- 48) (- 59), S (- 20) (- 23), S 16 (- 3), S 26 13, S 38 24, S 51 42, S 55 54, S 63 57, S 63 65, S 68 73, S 81 78, S 81 86, S 91 88, S 98 97 ], [ S (- 58) (- 76), S (- 27) (- 18), S (- 15) 28, S (- 10) 55, S (- 5) 69, S (- 2) 82, S 9 112, S 16 118, S 30 132, S 29 142, S 32 155, S 38 165, S 46 166, S 48 169, S 58 171 ], [ S (- 39) (- 36), S (- 21) (- 15), S 3 8, S 3 18, S 14 34, S 22 54, S 28 61, S 41 73, S 43 79, S 48 92, S 56 94, S 60 104, S 60 113, S 66 120, S 67 123, S 70 126, S 71 133, S 73 136, S 79 140, S 88 143, S 88 148, S 99 166, S 102 170, S 102 175, S 106 184, S 109 191, S 113 206, S 116 212 ] ]
      | HORDE_VARIANT \<Rightarrow> [ [ S (- 126) (- 90), S (- 7) (- 22), S (- 46) (- 25), S 19 7, S (- 53) 71, S 31 (- 1), S (- 6) 51, S (- 12) 47, S (- 9) (- 56) ], [ S (- 46) (- 2), S 30 66, S 18 (- 27), S 86 21, S 65 11, S 147 45, S 98 38, S 95 52, S 122 45, S 95 33, S 89 103, S 85 (- 9), S 105 70, S 131 82 ], [ S (- 56) (- 78), S (- 25) (- 18), S (- 11) 26, S (- 5) 55, S (- 4) 70, S (- 1) 81, S 8 109, S 14 120, S 21 128, S 23 143, S 31 154, S 32 160, S 43 165, S 49 168, S 59 169 ], [ S (- 40) (- 35), S (- 25) (- 12), S 2 7, S 4 19, S 14 37, S 24 55, S 25 62, S 40 76, S 43 79, S 47 87, S 54 94, S 56 102, S 60 111, S 70 116, S 72 118, S 73 122, S 75 128, S 77 130, S 85 133, S 94 136, S 99 140, S 108 157, S 112 158, S 113 161, S 118 174, S 119 177, S 123 191, S 128 199 ] ]
      | KOTH_VARIANT \<Rightarrow> [ [ S (- 75) (- 76), S (- 56) (- 54), S (- 9) (- 26), S (- 2) (- 10), S 6 5, S 15 11, S 22 26, S 30 28, S 36 29 ], [ S (- 48) (- 58), S (- 21) (- 19), S 16 (- 2), S 26 12, S 37 22, S 51 42, S 54 54, S 63 58, S 65 63, S 71 70, S 79 74, S 81 86, S 92 90, S 97 94 ], [ S (- 56) (- 78), S (- 25) (- 18), S (- 11) 26, S (- 5) 55, S (- 4) 70, S (- 1) 81, S 8 109, S 14 120, S 21 128, S 23 143, S 31 154, S 32 160, S 43 165, S 49 168, S 59 169 ], [ S (- 40) (- 35), S (- 25) (- 12), S 2 7, S 4 19, S 14 37, S 24 55, S 25 62, S 40 76, S 43 79, S 47 87, S 54 94, S 56 102, S 60 111, S 70 116, S 72 118, S 73 122, S 75 128, S 77 130, S 85 133, S 94 136, S 99 140, S 108 157, S 112 158, S 113 161, S 118 174, S 119 177, S 123 191, S 128 199 ] ]
      | LOSERS_VARIANT \<Rightarrow> [ [ S (- 150) (- 152), S (- 112) (- 108), S (- 18) (- 52), S (- 4) (- 20), S 12 10, S 30 22, S 44 52, S 60 56, S 72 58 ], [ S (- 96) (- 116), S (- 42) (- 38), S 32 (- 4), S 52 24, S 74 44, S 102 84, S 108 108, S 126 116, S 130 126, S 142 140, S 158 148, S 162 172, S 184 180, S 194 188 ], [ S (- 112) (- 156), S (- 50) (- 36), S (- 22) 52, S (- 10) 110, S (- 8) 140, S (- 2) 162, S 16 218, S 28 240, S 42 256, S 46 286, S 62 308, S 64 320, S 86 330, S 98 336, S 118 338 ], [ S (- 80) (- 70), S (- 50) (- 24), S 4 14, S 8 38, S 28 74, S 48 110, S 50 124, S 80 152, S 86 158, S 94 174, S 108 188, S 112 204, S 120 222, S 140 232, S 144 236, S 146 244, S 150 256, S 154 260, S 170 266, S 188 272, S 198 280, S 216 314, S 224 316, S 226 322, S 236 348, S 238 354, S 246 382, S 256 398 ] ]
      | RACE_VARIANT \<Rightarrow> [ [ S (- 132) (- 117), S (- 89) (- 110), S (- 13) (- 49), S (- 11) (- 15), S (- 10) (- 30), S 29 17, S 13 32, S 79 69, S 109 79 ], [ S (- 101) (- 119), S (- 19) (- 27), S 27 (- 9), S 35 30, S 62 31, S 115 72, S 91 99, S 138 122, S 129 119, S 158 156, S 153 162, S 143 189, S 172 181, S 196 204 ], [ S (- 131) (- 162), S (- 57) (- 37), S (- 8) 47, S 12 93, S 3 127, S 10 139, S 3 240, S 18 236, S 44 251, S 44 291, S 49 301, S 67 316, S 100 324, S 97 340, S 110 324 ], [ S (- 87) (- 68), S (- 73) (- 2), S (- 7) 9, S (- 5) 16, S 39 76, S 39 118, S 64 131, S 86 169, S 86 175, S 78 166, S 97 195, S 123 216, S 137 200, S 155 247, S 159 260, S 136 252, S 156 279, S 160 251, S 165 251, S 194 267, S 204 271, S 216 331, S 226 304, S 223 295, S 239 316, S 228 365, S 240 385, S 249 377 ] ]
      | RELAY_VARIANT \<Rightarrow> [ [ S (- 75) (- 76), S (- 56) (- 54), S (- 9) (- 26), S (- 2) (- 10), S 6 5, S 15 11, S 22 26, S 30 28, S 36 29 ], [ S (- 48) (- 58), S (- 21) (- 19), S 16 (- 2), S 26 12, S 37 22, S 51 42, S 54 54, S 63 58, S 65 63, S 71 70, S 79 74, S 81 86, S 92 90, S 97 94 ], [ S (- 56) (- 78), S (- 25) (- 18), S (- 11) 26, S (- 5) 55, S (- 4) 70, S (- 1) 81, S 8 109, S 14 120, S 21 128, S 23 143, S 31 154, S 32 160, S 43 165, S 49 168, S 59 169 ], [ S (- 40) (- 35), S (- 25) (- 12), S 2 7, S 4 19, S 14 37, S 24 55, S 25 62, S 40 76, S 43 79, S 47 87, S 54 94, S 56 102, S 60 111, S 70 116, S 72 118, S 73 122, S 75 128, S 77 130, S 85 133, S 94 136, S 99 140, S 108 157, S 112 158, S 113 161, S 118 174, S 119 177, S 123 191, S 128 199 ] ]
      | THREECHECK_VARIANT \<Rightarrow> [ [ S (- 74) (- 76), S (- 55) (- 54), S (- 9) (- 26), S (- 2) (- 10), S 6 5, S 15 11, S 22 26, S 31 27, S 37 29 ], [ S (- 49) (- 56), S (- 23) (- 18), S 15 (- 2), S 25 12, S 36 22, S 50 42, S 53 54, S 64 57, S 67 63, S 71 68, S 84 76, S 79 87, S 95 91, S 98 93 ], [ S (- 57) (- 76), S (- 25) (- 18), S (- 11) 25, S (- 5) 53, S (- 4) 70, S (- 1) 78, S 8 111, S 14 116, S 22 125, S 24 148, S 31 159, S 31 173, S 44 163, S 50 162, S 56 168 ], [ S (- 42) (- 35), S (- 25) (- 12), S 2 7, S 4 19, S 14 37, S 24 53, S 26 63, S 39 80, S 42 77, S 48 88, S 53 96, S 57 96, S 61 108, S 71 116, S 70 116, S 74 125, S 75 133, S 78 133, S 85 137, S 97 135, S 103 141, S 107 165, S 109 153, S 115 162, S 119 164, S 121 184, S 121 192, S 131 203 ] ]
      | TWOKINGS_VARIANT \<Rightarrow> [ [ S (- 75) (- 76), S (- 57) (- 54), S (- 9) (- 28), S (- 2) (- 10), S 6 5, S 14 12, S 22 26, S 29 29, S 36 29 ], [ S (- 48) (- 59), S (- 20) (- 23), S 16 (- 3), S 26 13, S 38 24, S 51 42, S 55 54, S 63 57, S 63 65, S 68 73, S 81 78, S 81 86, S 91 88, S 98 97 ], [ S (- 58) (- 76), S (- 27) (- 18), S (- 15) 28, S (- 10) 55, S (- 5) 69, S (- 2) 82, S 9 112, S 16 118, S 30 132, S 29 142, S 32 155, S 38 165, S 46 166, S 48 169, S 58 171 ], [ S (- 39) (- 36), S (- 21) (- 15), S 3 8, S 3 18, S 14 34, S 22 54, S 28 61, S 41 73, S 43 79, S 48 92, S 56 94, S 60 104, S 60 113, S 66 120, S 67 123, S 70 126, S 71 133, S 73 136, S 79 140, S 88 143, S 88 148, S 99 166, S 102 170, S 102 175, S 106 184, S 109 191, S 113 206, S 116 212 ] ]
    )"

text \<open>\<^verbatim>\<open>Passed\<close> (evaluate.cpp, lines 406 to 480), one entry per variant; rows are MG and EG.\<close>

definition Passed :: "variant \<Rightarrow> int list list" where
  "Passed v = (case v of
        CHESS_VARIANT \<Rightarrow> [ [ 5, 5, 31, 73, 166, 252 ], [ 7, 14, 38, 73, 166, 252 ] ]
      | ANTI_VARIANT \<Rightarrow> [ [ 5, 5, 31, 73, 166, 252 ], [ 7, 14, 38, 73, 166, 252 ] ]
      | ATOMIC_VARIANT \<Rightarrow> [ [ 95, 118, 94, 142, 196, 204 ], [ 86, 43, 61, 62, 150, 256 ] ]
      | CRAZYHOUSE_VARIANT \<Rightarrow> [ [ 15, 23, 13, 88, 177, 229 ], [ 27, 13, 19, 111, 140, 203 ] ]
      | EXTINCTION_VARIANT \<Rightarrow> [ [ 5, 5, 31, 73, 166, 252 ], [ 7, 14, 38, 73, 166, 252 ] ]
      | GRID_VARIANT \<Rightarrow> [ [ 11, 4, 27, 58, 168, 251 ], [ 2, 0, 34, 17, 165, 253 ] ]
      | HORDE_VARIANT \<Rightarrow> [ [ (- 66), (- 25), 66, 68, 72, 250 ], [ 10, 7, (- 12), 81, 210, 258 ] ]
      | KOTH_VARIANT \<Rightarrow> [ [ 5, 5, 31, 73, 166, 252 ], [ 7, 14, 38, 73, 166, 252 ] ]
      | LOSERS_VARIANT \<Rightarrow> [ [ 5, 5, 31, 73, 166, 252 ], [ 7, 14, 38, 73, 166, 252 ] ]
      | RACE_VARIANT \<Rightarrow> []
      | RELAY_VARIANT \<Rightarrow> [ [ 5, 5, 31, 73, 166, 252 ], [ 7, 14, 38, 73, 166, 252 ] ]
      | THREECHECK_VARIANT \<Rightarrow> [ [ 5, 5, 31, 73, 166, 252 ], [ 7, 14, 38, 73, 166, 252 ] ]
      | TWOKINGS_VARIANT \<Rightarrow> [ [ 5, 5, 31, 73, 166, 252 ], [ 7, 14, 38, 73, 166, 252 ] ]
    )"

text \<open>
  The array is declared \<^verbatim>\<open>Passed[VARIANT_NB][2][RANK_NB]\<close> and line 1417 reads it at
  \<^verbatim>\<open>r = relative_rank(Us, s) - RANK_2\<close>, which is \<open>-1\<close> for a pawn on its own first rank
  (a pawn of the horde). The rows lie one after the other in memory, \<^verbatim>\<open>RANK_NB\<close> = 8
  elements each, the variants in the order of the initializer, and the elements that the
  initializer leaves out (the last two of every row) are zero. So \<^verbatim>\<open>Passed[v][EG][-1]\<close> is
  element 7 of the MG row of \<open>v\<close>, and \<^verbatim>\<open>Passed[v][MG][-1]\<close> is element 7 of the EG row of
  the variant before \<open>v\<close>. \<open>Passed_at\<close> reads the array through this layout. Only the MG
  read of the first variant at \<open>r = -1\<close> falls outside the object, where C++ leaves the
  behaviour undefined; it takes a pawn of standard chess on its own first rank, and the
  model gives 0 there.
\<close>

definition RANK_NB :: nat where
  "RANK_NB = 8"

definition variant_index :: "variant \<Rightarrow> nat" where
  "variant_index v = (case v of
        CHESS_VARIANT \<Rightarrow> 0
      | ANTI_VARIANT \<Rightarrow> 1
      | ATOMIC_VARIANT \<Rightarrow> 2
      | CRAZYHOUSE_VARIANT \<Rightarrow> 3
      | EXTINCTION_VARIANT \<Rightarrow> 4
      | GRID_VARIANT \<Rightarrow> 5
      | HORDE_VARIANT \<Rightarrow> 6
      | KOTH_VARIANT \<Rightarrow> 7
      | LOSERS_VARIANT \<Rightarrow> 8
      | RACE_VARIANT \<Rightarrow> 9
      | RELAY_VARIANT \<Rightarrow> 10
      | THREECHECK_VARIANT \<Rightarrow> 11
      | TWOKINGS_VARIANT \<Rightarrow> 12)"

definition Passed_row :: "variant \<Rightarrow> nat \<Rightarrow> int list" where
  "Passed_row v i =
    (let xs = (if i < length (Passed v) then Passed v ! i else [])
     in take RANK_NB xs @ replicate (RANK_NB - length xs) 0)"

definition Passed_memory :: "int list" where
  "Passed_memory =
     concat (map (\<lambda>v. Passed_row v 0 @ Passed_row v 1)
       [CHESS_VARIANT, ANTI_VARIANT, ATOMIC_VARIANT, CRAZYHOUSE_VARIANT, EXTINCTION_VARIANT,
        GRID_VARIANT, HORDE_VARIANT, KOTH_VARIANT, LOSERS_VARIANT, RACE_VARIANT,
        RELAY_VARIANT, THREECHECK_VARIANT, TWOKINGS_VARIANT])"

definition Passed_at :: "variant \<Rightarrow> nat \<Rightarrow> int \<Rightarrow> int" where
  "Passed_at v i r =
    (let k = int ((variant_index v * 2 + i) * RANK_NB) + r
     in if 0 \<le> k \<and> k < int (length Passed_memory) then Passed_memory ! nat k else 0)"

text \<open>\<^verbatim>\<open>CloseEnemies\<close> (evaluate.cpp, lines 557 to 595), one entry per variant.\<close>

definition CloseEnemies :: "variant \<Rightarrow> score" where
  "CloseEnemies v = (case v of
        CHESS_VARIANT \<Rightarrow> S 7 0
      | ANTI_VARIANT \<Rightarrow> S 0 0
      | ATOMIC_VARIANT \<Rightarrow> S 17 0
      | CRAZYHOUSE_VARIANT \<Rightarrow> S 14 20
      | EXTINCTION_VARIANT \<Rightarrow> S 0 0
      | GRID_VARIANT \<Rightarrow> S 7 0
      | HORDE_VARIANT \<Rightarrow> S 7 0
      | KOTH_VARIANT \<Rightarrow> S 7 0
      | LOSERS_VARIANT \<Rightarrow> S 7 0
      | RACE_VARIANT \<Rightarrow> S 0 0
      | RELAY_VARIANT \<Rightarrow> S 7 0
      | THREECHECK_VARIANT \<Rightarrow> S 16 9
      | TWOKINGS_VARIANT \<Rightarrow> S 7 0
    )"

text \<open>\<^verbatim>\<open>KingAttackWeights\<close> (evaluate.cpp, lines 611 to 649), one entry per variant.\<close>

definition KingAttackWeights :: "variant \<Rightarrow> int list" where
  "KingAttackWeights v = (case v of
        CHESS_VARIANT \<Rightarrow> [ 0, 0, 78, 56, 45, 11 ]
      | ANTI_VARIANT \<Rightarrow> []
      | ATOMIC_VARIANT \<Rightarrow> [ 0, 0, 76, 64, 46, 11 ]
      | CRAZYHOUSE_VARIANT \<Rightarrow> [ 0, 0, 112, 87, 63, 2 ]
      | EXTINCTION_VARIANT \<Rightarrow> []
      | GRID_VARIANT \<Rightarrow> [ 0, 0, 89, 62, 47, 11 ]
      | HORDE_VARIANT \<Rightarrow> [ 0, 0, 78, 56, 45, 11 ]
      | KOTH_VARIANT \<Rightarrow> [ 0, 0, 76, 48, 44, 10 ]
      | LOSERS_VARIANT \<Rightarrow> [ 0, 0, 78, 56, 45, 11 ]
      | RACE_VARIANT \<Rightarrow> []
      | RELAY_VARIANT \<Rightarrow> [ 0, 0, 78, 56, 45, 11 ]
      | THREECHECK_VARIANT \<Rightarrow> [ 0, 0, 115, 64, 62, 35 ]
      | TWOKINGS_VARIANT \<Rightarrow> [ 0, 0, 78, 56, 45, 11 ]
    )"

text \<open>\<^verbatim>\<open>KingDangerParams\<close> (evaluate.cpp, lines 652 to 690), one entry per variant.\<close>

definition KingDangerParams :: "variant \<Rightarrow> int list" where
  "KingDangerParams v = (case v of
        CHESS_VARIANT \<Rightarrow> [ 102, 191, 143, (- 848), (- 9), 40, 0 ]
      | ANTI_VARIANT \<Rightarrow> []
      | ATOMIC_VARIANT \<Rightarrow> [ 274, 166, 146, (- 654), (- 12), (- 7), 29 ]
      | CRAZYHOUSE_VARIANT \<Rightarrow> [ 119, 439, 130, (- 613), (- 6), (- 1), 320 ]
      | EXTINCTION_VARIANT \<Rightarrow> []
      | GRID_VARIANT \<Rightarrow> [ 119, 211, 158, (- 722), (- 9), 41, 0 ]
      | HORDE_VARIANT \<Rightarrow> [ 101, 235, 134, (- 717), (- 11), (- 5), 0 ]
      | KOTH_VARIANT \<Rightarrow> [ 85, 229, 131, (- 658), (- 9), (- 5), 0 ]
      | LOSERS_VARIANT \<Rightarrow> [ 101, 235, 134, (- 717), (- 357), (- 5), 0 ]
      | RACE_VARIANT \<Rightarrow> []
      | RELAY_VARIANT \<Rightarrow> [ 101, 235, 134, (- 717), (- 11), (- 5), 0 ]
      | THREECHECK_VARIANT \<Rightarrow> [ 85, 136, 106, (- 613), (- 7), (- 73), 181 ]
      | TWOKINGS_VARIANT \<Rightarrow> [ 92, 155, 136, (- 967), (- 8), 38, 0 ]
    )"

text \<open>\<^verbatim>\<open>SpaceThreshold\<close> (evaluate.cpp, lines 707 to 745), one entry per variant.\<close>

definition SpaceThreshold :: "variant \<Rightarrow> int" where
  "SpaceThreshold v = (case v of
        CHESS_VARIANT \<Rightarrow> 12222
      | ANTI_VARIANT \<Rightarrow> 12222
      | ATOMIC_VARIANT \<Rightarrow> 12222
      | CRAZYHOUSE_VARIANT \<Rightarrow> 12222
      | EXTINCTION_VARIANT \<Rightarrow> 12222
      | GRID_VARIANT \<Rightarrow> 12222
      | HORDE_VARIANT \<Rightarrow> 0
      | KOTH_VARIANT \<Rightarrow> 0
      | LOSERS_VARIANT \<Rightarrow> 12222
      | RACE_VARIANT \<Rightarrow> 12222
      | RELAY_VARIANT \<Rightarrow> 12222
      | THREECHECK_VARIANT \<Rightarrow> 12222
      | TWOKINGS_VARIANT \<Rightarrow> 12222
    )"


text \<open>The remaining tables and constants of \<^verbatim>\<open>evaluate.cpp\<close> (lines 376 to 706).\<close>

definition Outpost :: "score list list" where
  "Outpost = [ [ S 22 6, S 36 12 ], [ S 9 2, S 15 5 ] ]"

definition RookOnFile :: "score list" where
  "RookOnFile = [ S 20 7, S 45 20 ]"

definition ThreatByMinor :: "score list" where
  "ThreatByMinor = [ S 0 0, S 0 33, S 45 43, S 46 47, S 72 107, S 48 118 ]"

definition ThreatByRook :: "score list" where
  "ThreatByRook = [ S 0 0, S 0 25, S 40 62, S 40 59, S 0 34, S 35 48 ]"

definition ThreatByKing :: "score list" where
  "ThreatByKing = [ S 3 62, S 9 138 ]"

definition ChecksGivenBonus :: "score list" where
  "ChecksGivenBonus = [ S 0 0, S 444 181, S 2425 603, S 0 0 ]"

definition KothDistanceBonus :: "score list" where
  "KothDistanceBonus = [ S 1949 1934, S 454 364, S 151 158, S 75 85, S 42 49, S 0 0 ]"

definition KothSafeCenter :: score where
  "KothSafeCenter = S 163 207"

definition PieceCountAnti :: score where
  "PieceCountAnti = S 119 123"

definition ThreatsAnti :: "score list" where
  "ThreatsAnti = [ S 192 203, S 411 322 ]"

definition AttacksAnti :: "score list list list" where
  "AttacksAnti =
    [ [ [ S 30 141, S 26 94, S 161 105, S 70 123, S 61 72, S 78 12, S 139 115 ],
        [ S 56 89, S 82 107, S 114 93, S 110 115, S 188 112, S 73 59, S 122 59 ] ],
      [ [ S 119 142, S 99 105, S 123 193, S 142 37, S 118 96, S 50 12, S 91 85 ],
        [ S 58 81, S 66 110, S 105 153, S 100 143, S 140 113, S 145 73, S 153 154 ] ] ]"

definition ThreatsLosers :: "score list" where
  "ThreatsLosers = [ S 216 279, S 441 341 ]"

definition AttacksLosers :: "score list list list" where
  "AttacksLosers =
    [ [ [ S 27 140, S 23 95, S 160 112, S 78 129, S 65 75, S 70 13, S 146 123 ],
        [ S 58 82, S 80 112, S 124 87, S 103 110, S 185 107, S 72 60, S 126 62 ] ],
      [ [ S 111 127, S 102 95, S 121 183, S 140 37, S 120 99, S 55 11, S 88 93 ],
        [ S 56 69, S 72 124, S 109 154, S 98 149, S 129 113, S 147 72, S 157 152 ] ] ]"

definition KingDangerInHand :: "int list" where
  "KingDangerInHand = [ 79, 16, 200, 61, 138, 152 ]"

definition KingRaceBonus :: "score list" where
  "KingRaceBonus =
    [ S 14282 14493, S 6369 5378, S 4224 3557, S 2633 2219,
      S 1614 1456, S 975 885, S 528 502, S 0 0 ]"

definition PassedFile :: "score list" where
  "PassedFile =
    [ S 9 10, S 2 10, S 1 (- 8), S (- 20) (- 12),
      S (- 20) (- 12), S 1 (- 8), S 2 10, S 9 10 ]"

definition KingProtector :: "score list" where
  "KingProtector = [ S (- 3) (- 5), S (- 4) (- 3), S (- 3) 0, S (- 1) 1 ]"

definition MinorBehindPawn :: score where "MinorBehindPawn = S 16 0"
definition BishopPawns :: score where "BishopPawns = S 8 12"
definition LongRangedBishop :: score where "LongRangedBishop = S 22 0"
definition RookOnPawn :: score where "RookOnPawn = S 8 24"
definition TrappedRook :: score where "TrappedRook = S 92 0"
definition WeakQueen :: score where "WeakQueen = S 50 10"
definition PawnlessFlank :: score where "PawnlessFlank = S 20 80"
definition ThreatByHangingPawn :: score where "ThreatByHangingPawn = S 71 61"
definition ThreatBySafePawn :: score where "ThreatBySafePawn = S 192 175"
definition ThreatByRank :: score where "ThreatByRank = S 16 3"
definition Hanging :: score where "Hanging = S 48 27"
definition WeakUnopposedPawn :: score where "WeakUnopposedPawn = S 5 25"
definition ThreatByPawnPush :: score where "ThreatByPawnPush = S 38 22"
definition ThreatByAttackOnQueen :: score where "ThreatByAttackOnQueen = S 38 22"
definition HinderPassedPawn :: score where "HinderPassedPawn = S 7 0"
definition TrappedBishopA1H1 :: score where "TrappedBishopA1H1 = S 50 50"

definition QueenSafeCheck :: int where "QueenSafeCheck = 780"
definition RookSafeCheck :: int where "RookSafeCheck = 880"
definition BishopSafeCheck :: int where "BishopSafeCheck = 435"
definition KnightSafeCheck :: int where "KnightSafeCheck = 790"
definition IndirectKingAttack :: int where "IndirectKingAttack = 883"

definition ThreeCheckKSFactors :: "int list" where
  "ThreeCheckKSFactors = [ 571, 619, 858, 0 ]"

definition LazyThreshold :: int where
  "LazyThreshold = 1500"

subsection \<open>The class \<^verbatim>\<open>Evaluation\<close>\<close>

text \<open>
  The data members (lines 106 to 146). The constructor stores the position and sets
  \<^verbatim>\<open>mobility\<close> to zero; every other array holds whatever the memory held until
  \<^verbatim>\<open>initialize\<close> and \<^verbatim>\<open>evaluate_pieces\<close> write it.
\<close>

record evaluation =
  pos :: position
  me :: material_entry
  pe :: pawns_entry
  mobilityArea :: "color \<Rightarrow> bitboard"
  mobility :: "color \<Rightarrow> score"
  attackedBy :: "color \<Rightarrow> piece_type \<Rightarrow> bitboard"
  attackedBy2 :: "color \<Rightarrow> bitboard"
  kingRing :: "color \<Rightarrow> bitboard"
  kingAttackersCount :: "color \<Rightarrow> int"
  kingAttackersWeight :: "color \<Rightarrow> int"
  kingAdjacentZoneAttacksCount :: "color \<Rightarrow> int"

text \<open>Assignment to \<^verbatim>\<open>attackedBy[c][pt]\<close>.\<close>

definition set_attackedBy :: "color \<Rightarrow> piece_type \<Rightarrow> bitboard \<Rightarrow> evaluation \<Rightarrow> evaluation" where
  "set_attackedBy c pt v ev = ev\<lparr>attackedBy := (attackedBy ev)(c := (attackedBy ev c)(pt := v))\<rparr>"

text \<open>The conversion of a bitboard to \<^verbatim>\<open>bool\<close>.\<close>

abbreviation nonzero :: "bitboard \<Rightarrow> bool" where
  "nonzero b \<equiv> b \<noteq> 0"

subsubsection \<open>\<^verbatim>\<open>initialize\<close> (lines 751 to 823)\<close>

text \<open>
  The condition of line 801: the king safety tables of \<open>Us\<close> are set up when the variant is
  neither Anti nor Extinction and the enemy has at least a rook and a knight of non-pawn
  material, or when the variant is Crazyhouse.
\<close>

definition king_safety_used :: "globals \<Rightarrow> color \<Rightarrow> evaluation \<Rightarrow> bool" where
  "king_safety_used g Us ev =
     ((\<not> is_anti (pos ev) \<and> \<not> is_extinction (pos ev)
        \<and> non_pawn_material_c (pos ev) (opposite Us) \<ge> RookValueMg g + KnightValueMg g)
      \<or> is_house (pos ev))"

text \<open>The king attacks \<open>b\<close> of lines 772 to 794; Anti and Extinction may have several kings.\<close>

definition king_attacks :: "color \<Rightarrow> evaluation \<Rightarrow> bitboard" where
  "king_attacks Us ev =
     (if is_anti (pos ev) \<or> is_extinction (pos ev)
      then fold (\<lambda>s a. a OR attacks_from (pos ev) KING s)
             (pop_lsb_order (pieces_c_pt (pos ev) Us KING)) 0
      else attacks_from (pos ev) KING (square_KING (pos ev) Us))"

definition initialize :: "globals \<Rightarrow> color \<Rightarrow> evaluation \<Rightarrow> evaluation" where
  "initialize g Us ev =
    (let Them = opposite Us;
         Up = (if Us = WHITE then NORTH else SOUTH);
         Down = (if Us = WHITE then SOUTH else NORTH);
         LowRanks = (if Us = WHITE then Rank2BB OR Rank3BB else Rank7BB OR Rank6BB);
         p = pos ev;
         b0 = pieces_c_pt p Us PAWN AND (shift Down (pieces p) OR LowRanks);
         ev1 = ev\<lparr>mobilityArea := (mobilityArea ev)
                  (Us := (if is_anti p then NOT 0
                          else NOT (b0 OR square_bb (square_KING p Us)
                                       OR pawn_attacks (pe ev) Them)))\<rparr>;
         b = king_attacks Us ev1;
         ev2 = set_attackedBy Us KING b ev1;
         ev3 = set_attackedBy Us PAWN (pawn_attacks (pe ev2) Us) ev2;
         ev4 = ev3\<lparr>attackedBy2 := (attackedBy2 ev3)(Us := b AND attackedBy ev3 Us PAWN)\<rparr>;
         ev5 = set_attackedBy Us ALL_PIECES (b OR attackedBy ev4 Us PAWN) ev4
     in if king_safety_used g Us ev5
        then
          (let ring = (if relative_rank Us (square_KING p Us) = 0 then b OR shift Up b else b);
               ev6 = ev5\<lparr>kingRing := (kingRing ev5)(Us := ring)\<rparr>;
               ev7 = ev6\<lparr>kingAttackersCount := (kingAttackersCount ev6)
                        (Them := int (popcount (b AND pawn_attacks (pe ev6) Them)))\<rparr>;
               ev8 = ev7\<lparr>kingAttackersWeight := (kingAttackersWeight ev7)(Them := 0)\<rparr>
           in ev8\<lparr>kingAdjacentZoneAttacksCount :=
                     (kingAdjacentZoneAttacksCount ev8)(Them := 0)\<rparr>)
        else
          (let ev6 = ev5\<lparr>kingAttackersCount := (kingAttackersCount ev5)(Them := 0)\<rparr>
           in ev6\<lparr>kingRing := (kingRing ev6)(Us := 0)\<rparr>))"

subsubsection \<open>\<^verbatim>\<open>evaluate_pieces\<close> (lines 829 to 964)\<close>

text \<open>The attack set \<open>b\<close> of one piece on \<open>s\<close> (lines 848 to 858).\<close>

definition piece_attacks :: "globals \<Rightarrow> color \<Rightarrow> piece_type \<Rightarrow> square \<Rightarrow> evaluation \<Rightarrow> bitboard" where
  "piece_attacks g Us Pt s ev =
    (let p = pos ev;
         b = (if Pt = BISHOP then attacks_bb g BISHOP s (pieces p XOR pieces_pt p QUEEN)
              else if Pt = ROOK
                then attacks_bb g ROOK s (pieces p XOR pieces_pt p QUEEN XOR pieces_c_pt p Us ROOK)
              else attacks_from p Pt s);
         b1 = (if is_grid p then b AND NOT (grid_bb p s) else b)
     in if nonzero (pinned_pieces p Us AND square_bb s)
        then b1 AND LineBB g (square_KING p Us) s else b1)"

text \<open>
  Lines 860 to 875 for one piece: the merge into the attack tables, the king attack
  counters and the mobility score.
\<close>

definition pieces_merge :: "globals \<Rightarrow> color \<Rightarrow> piece_type \<Rightarrow> square \<Rightarrow> evaluation \<Rightarrow> evaluation" where
  "pieces_merge g Us Pt s ev =
    (let Them = opposite Us;
         b = piece_attacks g Us Pt s ev;
         ev1 = ev\<lparr>attackedBy2 :=
                  (attackedBy2 ev)(Us := attackedBy2 ev Us OR (attackedBy ev Us ALL_PIECES AND b))\<rparr>;
         ev2 = set_attackedBy Us Pt (attackedBy ev1 Us Pt OR b) ev1;
         ev3 = set_attackedBy Us ALL_PIECES
                 (attackedBy ev2 Us ALL_PIECES OR attackedBy ev2 Us Pt) ev2;
         ev4 = (if Pt = QUEEN
                then set_attackedBy Us QUEEN_DIAGONAL
                       (attackedBy ev3 Us QUEEN_DIAGONAL OR (b AND PseudoAttacks g BISHOP s)) ev3
                else ev3);
         ev5 = (if nonzero (b AND kingRing ev4 Them)
                then ev4\<lparr>kingAttackersCount :=
                             (kingAttackersCount ev4)(Us := kingAttackersCount ev4 Us + 1),
                          kingAttackersWeight :=
                             (kingAttackersWeight ev4)
                               (Us := kingAttackersWeight ev4 Us
                                        + tab (KingAttackWeights (variant (pos ev4))) (pt_index Pt)),
                          kingAdjacentZoneAttacksCount :=
                             (kingAdjacentZoneAttacksCount ev4)
                               (Us := kingAdjacentZoneAttacksCount ev4 Us
                                        + int (popcount (b AND attackedBy ev4 Them KING)))\<rparr>
                else ev4);
         mob = popcount (b AND mobilityArea ev5 Us)
     in ev5\<lparr>mobility := (mobility ev5)
              (Us := mobility ev5 Us
                       + tab2 (MobilityBonus (variant (pos ev5))) (pt_index Pt - 2) mob)\<rparr>)"

text \<open>Lines 887 to 928: the bonuses of a knight or bishop on \<open>s\<close> with attack set \<open>b\<close>.\<close>

definition minor_score :: "globals \<Rightarrow> color \<Rightarrow> piece_type \<Rightarrow> square \<Rightarrow> bitboard \<Rightarrow> evaluation \<Rightarrow> score" where
  "minor_score g Us Pt s b ev =
    (let Them = opposite Us;
         p = pos ev;
         OutpostRanks = (if Us = WHITE then Rank4BB OR Rank5BB OR Rank6BB
                         else Rank5BB OR Rank4BB OR Rank3BB);
         isB = (of_bool (Pt = BISHOP) :: nat);
         bb = OutpostRanks AND NOT (pawn_attacks_span (pe ev) Them);
         outpost =
           (if nonzero (bb AND square_bb s)
            then score_mul
                   (tab2 Outpost isB (of_bool (nonzero (attackedBy ev Us PAWN AND square_bb s)))) 2
            else (let bb1 = bb AND b AND NOT (pieces_c p Us)
                  in if nonzero bb1
                     then tab2 Outpost isB (of_bool (nonzero (attackedBy ev Us PAWN AND bb1)))
                     else SCORE_ZERO));
         behind =
           (if relative_rank Us s < 4
               \<and> nonzero (pieces_pt p PAWN AND square_bb (sq_plus s (pawn_push Us)))
            then MinorBehindPawn else SCORE_ZERO);
         bishop =
           (if Pt = BISHOP
            then - score_mul BishopPawns (pawns_on_same_color_squares (pe ev) Us s)
                 + (if more_than_one
                         (Center AND (attacks_bb g BISHOP s (pieces_pt p PAWN) OR square_bb s))
                    then LongRangedBishop else SCORE_ZERO)
            else SCORE_ZERO);
         cornered =
           (if Pt = BISHOP \<and> is_chess960 p
               \<and> (s = relative_square Us 0 \<or> s = relative_square Us 7)
            then (let d = pawn_push Us
                          + (if file_of s = 0 then direction_value EAST else direction_value WEST)
                  in if piece_on p (sq_plus s d) = make_piece Us PAWN
                     then - (if \<not> empty_sq p (sq_plus s (d + pawn_push Us))
                               then score_mul TrappedBishopA1H1 4
                             else if piece_on p (sq_plus s (d + d)) = make_piece Us PAWN
                               then score_mul TrappedBishopA1H1 2
                             else TrappedBishopA1H1)
                     else SCORE_ZERO)
            else SCORE_ZERO)
     in outpost + behind + bishop + cornered)"

text \<open>Lines 930 to 949: the bonuses of a rook on \<open>s\<close> with mobility \<open>mob\<close>.\<close>

definition rook_score :: "globals \<Rightarrow> color \<Rightarrow> square \<Rightarrow> nat \<Rightarrow> evaluation \<Rightarrow> score" where
  "rook_score g Us s mob ev =
    (let Them = opposite Us;
         p = pos ev;
         onpawn =
           (if relative_rank Us s \<ge> 4
            then score_mul RookOnPawn
                   (int (popcount (pieces_c_pt p Them PAWN AND PseudoAttacks g ROOK s)))
            else SCORE_ZERO);
         onfile =
           (if semiopen_file (pe ev) Us (file_of s)
            then tab RookOnFile (of_bool (semiopen_file (pe ev) Them (file_of s)))
            else if mob \<le> 3
            then (let ksq = square_KING p Us
                  in if ((file_of ksq < 4) = (file_of s < file_of ksq))
                        \<and> \<not> semiopen_side (pe ev) Us (file_of ksq) (file_of s < file_of ksq)
                     then - score_mul (TrappedRook - make_score (int mob * 22) 0)
                              (1 + of_bool (\<not> can_castle p Us))
                     else SCORE_ZERO)
            else SCORE_ZERO)
     in onpawn + onfile)"

text \<open>
  Lines 877 to 957: what one piece adds to the local \<^verbatim>\<open>score\<close>. In Anti the loop
  continues before any of it.
\<close>

definition piece_score :: "globals \<Rightarrow> color \<Rightarrow> piece_type \<Rightarrow> square \<Rightarrow> evaluation \<Rightarrow> score" where
  "piece_score g Us Pt s ev =
    (let Them = opposite Us;
         p = pos ev;
         b = piece_attacks g Us Pt s ev;
         mob = popcount (b AND mobilityArea ev Us)
     in if is_anti p then SCORE_ZERO
        else
          (if is_horde p \<and> is_horde_color p Us then SCORE_ZERO
           else score_mul (tab KingProtector (pt_index Pt - 2)) (distance s (square_KING p Us)))
          + (if Pt = BISHOP \<or> Pt = KNIGHT then minor_score g Us Pt s b ev else SCORE_ZERO)
          + (if Pt = ROOK then rook_score g Us s mob ev else SCORE_ZERO)
          + (if Pt = QUEEN
                \<and> nonzero (slider_blockers p (pieces_c_pt_pt p Them ROOK BISHOP) s)
             then - WeakQueen else SCORE_ZERO))"

text \<open>The body of the loop over the piece list, and the whole function.\<close>

definition pieces_body ::
  "globals \<Rightarrow> color \<Rightarrow> piece_type \<Rightarrow> square \<Rightarrow> score \<times> evaluation \<Rightarrow> score \<times> evaluation" where
  "pieces_body g Us Pt s acc =
     (fst acc + piece_score g Us Pt s (snd acc), pieces_merge g Us Pt s (snd acc))"

definition pieces_entry :: "color \<Rightarrow> piece_type \<Rightarrow> evaluation \<Rightarrow> evaluation" where
  "pieces_entry Us Pt ev =
    (let ev0 = set_attackedBy Us Pt 0 ev
     in if Pt = QUEEN then set_attackedBy Us QUEEN_DIAGONAL 0 ev0 else ev0)"

definition evaluate_pieces ::
  "globals \<Rightarrow> color \<Rightarrow> piece_type \<Rightarrow> evaluation \<Rightarrow> score \<times> evaluation" where
  "evaluate_pieces g Us Pt ev =
     fold (pieces_body g Us Pt) (squares (pos ev) Us Pt) (SCORE_ZERO, pieces_entry Us Pt ev)"

subsubsection \<open>\<^verbatim>\<open>evaluate_king\<close> (lines 969 to 1139)\<close>

text \<open>
  The guard of the main king safety evaluation (lines 983 to 988), with the Horde
  exception for a side that has no king.
\<close>

definition king_danger_active :: "color \<Rightarrow> evaluation \<Rightarrow> bool" where
  "king_danger_active Us ev =
     (kingAttackersCount ev (opposite Us) > 1 - count (pos ev) (opposite Us) QUEEN
      \<and> \<not> (is_horde (pos ev) \<and> square_KING (pos ev) Us = SQ_NONE))"

text \<open>The weak squares of lines 990 to 998.\<close>

definition king_weak :: "color \<Rightarrow> evaluation \<Rightarrow> bitboard" where
  "king_weak Us ev =
    (let Them = opposite Us; p = pos ev
     in if is_atomic p
        then (attackedBy ev Them ALL_PIECES OR (pieces_c p Them XOR pieces_c_pt p Them KING))
             AND (attackedBy ev Us KING OR (attackedBy ev Us QUEEN AND NOT (attackedBy2 ev Us))
                  OR NOT (attackedBy ev Us ALL_PIECES))
        else attackedBy ev Them ALL_PIECES
             AND NOT (attackedBy2 ev Us)
             AND (attackedBy ev Us KING OR attackedBy ev Us QUEEN
                  OR NOT (attackedBy ev Us ALL_PIECES)))"

text \<open>
  Lines 1000 to 1087: the king danger units \<^verbatim>\<open>kingDanger\<close> before they are turned into
  a score. \<open>score\<close> is the shelter score on entry.
\<close>

definition king_danger_units :: "globals \<Rightarrow> color \<Rightarrow> score \<Rightarrow> evaluation \<Rightarrow> int" where
  "king_danger_units g Us score ev =
    (let Them = opposite Us;
         p = pos ev;
         ksq = square_KING p Us;
         weak = king_weak Us ev;
         h0 = (if is_house p
               then (if count_in_hand p Them QUEEN \<noteq> 0 then weak AND NOT (pieces p) else 0)
               else 0);
         safe0 = NOT (pieces_c p Them)
                 AND (NOT (attackedBy ev Us ALL_PIECES) OR (weak AND attackedBy2 ev Them));
         safe1 = (if is_atomic p then safe0 OR attackedBy ev Us KING else safe0);
         dqko = NOT (attackedBy2 ev Us) AND (attackedBy ev Us QUEEN OR attackedBy ev Us KING);
         dropSafe = (safe1 OR (attackedBy ev Them ALL_PIECES AND dqko)) AND NOT (pieces_c p Us);
         b1 = attacks_bb g ROOK ksq (pieces p XOR pieces_c_pt p Us QUEEN);
         b2 = attacks_bb g BISHOP ksq (pieces p XOR pieces_c_pt p Us QUEEN);
         queenCheck = nonzero ((b1 OR b2) AND (h0 OR attackedBy ev Them QUEEN) AND safe1
                               AND NOT (attackedBy ev Us QUEEN));
         safe = (if is_three_check p \<and> checks_given p Them \<noteq> 0
                 then NOT (pieces_c p Them) else safe1);
         hR = (if is_house p \<and> count_in_hand p Them ROOK \<noteq> 0 then NOT (pieces p) else 0);
         rookCheck = nonzero (b1 AND ((attackedBy ev Them ROOK AND safe) OR (hR AND dropSafe)));
         unsafe1 = (if rookCheck then 0 else b1 AND (attackedBy ev Them ROOK OR hR));
         hB = (if is_house p \<and> count_in_hand p Them BISHOP \<noteq> 0 then NOT (pieces p) else 0);
         bishopCheck =
           nonzero (b2 AND ((attackedBy ev Them BISHOP AND safe) OR (hB AND dropSafe)));
         unsafe2 = (if bishopCheck then unsafe1
                    else unsafe1 OR (b2 AND (attackedBy ev Them BISHOP OR hB)));
         bN = attacks_from p KNIGHT ksq;
         hN = (if is_house p \<and> count_in_hand p Them KNIGHT \<noteq> 0 then NOT (pieces p) else 0);
         knightCheck =
           nonzero (bN AND ((attackedBy ev Them KNIGHT AND safe) OR (hN AND dropSafe)));
         unsafe3 = (if knightCheck then unsafe2
                    else unsafe2 OR (bN AND (attackedBy ev Them KNIGHT OR hN)));
         unsafeChecks = unsafe3 AND mobilityArea ev Them;
         KDP = KingDangerParams (variant p);
         kd0 = (if queenCheck then QueenSafeCheck else 0)
               + (if rookCheck then RookSafeCheck else 0)
               + (if bishopCheck then BishopSafeCheck else 0)
               + (if knightCheck then KnightSafeCheck else 0);
         kd1 = kd0
               + (kingAttackersCount ev Them * kingAttackersWeight ev Them
                  + tab KDP 0 * kingAdjacentZoneAttacksCount ev Them
                  + tab KDP 1 * int (popcount (kingRing ev Us AND weak))
                  + tab KDP 2 * int (popcount (pinned_pieces p Us OR unsafeChecks))
                  + tab KDP 3 * of_bool (count p Them QUEEN = 0)
                  + (tab KDP 4 * mg_value score) sdiv 8
                  + tab KDP 5);
         kd2 = (if is_house p
                then kd1
                     + tab KingDangerInHand (pt_index ALL_PIECES) * count_in_hand p Them ALL_PIECES
                     + tab KingDangerInHand (pt_index PAWN) * count_in_hand p Them PAWN
                     + tab KingDangerInHand (pt_index KNIGHT) * count_in_hand p Them KNIGHT
                     + tab KingDangerInHand (pt_index BISHOP) * count_in_hand p Them BISHOP
                     + tab KingDangerInHand (pt_index ROOK) * count_in_hand p Them ROOK
                     + tab KingDangerInHand (pt_index QUEEN) * count_in_hand p Them QUEEN
                else kd1)
     in if is_atomic p
        then kd2 + IndirectKingAttack
                   * int (popcount (attacks_from p KING (square_KING p Us) AND pieces_c p Us
                                    AND attackedBy ev Them ALL_PIECES))
        else kd2)"

text \<open>
  Lines 1084 to 1114: the Atomic deduction and the transformation of the king danger
  units into a score that is subtracted.
\<close>

definition king_danger_block :: "globals \<Rightarrow> color \<Rightarrow> score \<Rightarrow> evaluation \<Rightarrow> score" where
  "king_danger_block g Us score ev =
    (let Them = opposite Us;
         p = pos ev;
         KDP = KingDangerParams (variant p);
         kingDanger = king_danger_units g Us score ev;
         score1 = (if is_atomic p
                   then score - score_mul (make_score 100 100)
                                  (int (popcount (attackedBy ev Us KING AND pieces p)))
                   else score)
     in if kingDanger > 0
        then
          (let kd = (if is_three_check p
                     then (tab ThreeCheckKSFactors (checks_given p Them) * kingDanger) sdiv 256
                     else kingDanger);
               v0 = (kd * kd) sdiv 4096;
               v1 = (if is_atomic p \<and> v0 > QueenValueMg g then QueenValueMg g else v0);
               v2 = (if is_house p \<and> Us = side_to_move p then v1 - v1 sdiv 10 else v1);
               v3 = (if is_house p \<and> v2 > QueenValueMg g then QueenValueMg g else v2);
               v = (if is_three_check p \<and> v3 > QueenValueMg g then QueenValueMg g else v3)
           in score1 - make_score v (kd sdiv 16 + (tab KDP 6 * v) sdiv 256))
        else score1)"

text \<open>
  King tropism (lines 1117 to 1129): the enemy attacks in our king flank and camp, the
  shift of that set by four bits towards the enemy, and the two assertions of lines 1121
  and 1122 (\<^verbatim>\<open>assert\<close> is compiled out of release builds, so the assertions are
  predicates beside the function).
\<close>

definition Camp :: "color \<Rightarrow> bitboard" where
  "Camp Us = (if Us = WHITE then AllSquares XOR Rank6BB XOR Rank7BB XOR Rank8BB
              else AllSquares XOR Rank1BB XOR Rank2BB XOR Rank3BB)"

definition tropism_flank :: "color \<Rightarrow> evaluation \<Rightarrow> bitboard" where
  "tropism_flank Us ev =
     attackedBy ev (opposite Us) ALL_PIECES
     AND KingFlank (file_of (square_KING (pos ev) Us)) AND Camp Us"

definition tropism_shift :: "color \<Rightarrow> bitboard \<Rightarrow> bitboard" where
  "tropism_shift Us b = (if Us = WHITE then push_bit 4 b else drop_bit 4 b)"

definition tropism_assertions :: "color \<Rightarrow> evaluation \<Rightarrow> bool" where
  "tropism_assertions Us ev =
    (let b = tropism_flank Us ev
     in tropism_shift Us b AND b = 0 \<and> popcount (tropism_shift Us b) = popcount b)"

text \<open>Lines 1117 to 1133: what tropism and a pawnless flank take from the score.\<close>

definition king_tropism :: "color \<Rightarrow> score \<Rightarrow> evaluation \<Rightarrow> score" where
  "king_tropism Us score ev =
    (let Them = opposite Us;
         p = pos ev;
         kf = file_of (square_KING p Us);
         b = tropism_flank Us ev;
         b1 = tropism_shift Us b
              OR (b AND attackedBy2 ev Them AND NOT (attackedBy ev Us PAWN));
         score1 = score - score_mul (CloseEnemies (variant p)) (int (popcount b1))
     in if \<not> nonzero (pieces_pt p PAWN AND KingFlank kf)
        then score1 - PawnlessFlank else score1)"

definition evaluate_king :: "globals \<Rightarrow> color \<Rightarrow> evaluation \<Rightarrow> score" where
  "evaluate_king g Us ev =
    (let ksq = square_KING (pos ev) Us;
         score = king_safety (pe ev) Us ksq;
         score1 = (if king_danger_active Us ev then king_danger_block g Us score ev else score)
     in king_tropism Us score1 ev)"

subsubsection \<open>\<^verbatim>\<open>evaluate_passed_pawns\<close> (lines 1366 to 1499)\<close>

text \<open>The Race branch (lines 1376 to 1384).\<close>

definition race_score :: "color \<Rightarrow> evaluation \<Rightarrow> score" where
  "race_score Us ev =
    (let Them = opposite Us;
         p = pos ev;
         ksq = square_KING p Us;
         kr = rank_of ksq;
         blocked = filter (\<lambda>r. \<not> nonzero (rank_bb r AND DistanceRingBB ksq (r - 1 - kr)
                                            AND NOT (attackedBy ev Them ALL_PIECES)
                                            AND NOT (pieces_c p Us)))
                     [kr + 1 ..< 8];
         s = relative_rank BLACK ksq + length blocked
     in tab KingRaceBonus (min s 7))"

text \<open>
  The King of the Hill bonus (lines 1391 to 1403). Line 1400 asserts \<^verbatim>\<open>dist > 0\<close>, which
  holds whenever the king that stands on a centre square is counted among the pieces of
  its side; \<open>koth_assertion\<close> is that assertion, and where it fails the model reads
  element 0 of \<^verbatim>\<open>KothDistanceBonus\<close>.
\<close>

definition koth_dist :: "color \<Rightarrow> evaluation \<Rightarrow> square \<Rightarrow> int" where
  "koth_dist Us ev c =
     distance (square_KING (pos ev) Us) c
     + int (popcount (attackers_to (pos ev) c AND pieces_c (pos ev) (opposite Us)))
     + int (popcount (pieces_c (pos ev) Us AND square_bb c))"

definition koth_assertion :: "color \<Rightarrow> evaluation \<Rightarrow> bool" where
  "koth_assertion Us ev = list_all (\<lambda>c. 0 < koth_dist Us ev c) [28, 27, 35, 36]"

definition koth_score :: "color \<Rightarrow> evaluation \<Rightarrow> score" where
  "koth_score Us ev =
    (let Them = opposite Us;
         p = pos ev;
         ksq = square_KING p Us
     in fold (\<lambda>c score.
                (let dist = distance ksq c
                            + int (popcount (attackers_to p c AND pieces_c p Them))
                            + int (popcount (pieces_c p Us AND square_bb c))
                 in score + tab KothDistanceBonus (nat (min (dist - 1) 5))))
          [28, 27, 35, 36] SCORE_ZERO)"

text \<open>
  Lines 1414 to 1482 for the passed pawn on \<open>s\<close>: the pair \<^verbatim>\<open>(mbonus, ebonus)\<close> as it
  stands before the scaling of line 1486. The two reads of \<^verbatim>\<open>Passed\<close> go through
  \<open>Passed_at\<close>, since \<open>r\<close> is \<open>-1\<close> for a pawn on its own first rank.
\<close>

definition passed_bonus :: "color \<Rightarrow> square \<Rightarrow> evaluation \<Rightarrow> int \<times> int" where
  "passed_bonus Us s ev =
    (let Them = opposite Us;
         Up = pawn_push Us;
         p = pos ev;
         r = int (relative_rank Us s) - 1;
         rr = r * (r - 1);
         mbonus = Passed_at (variant p) 0 r;
         ebonus = Passed_at (variant p) 1 r
     in if rr \<noteq> 0
        then
          (let blockSq = sq_plus s Up;
               dThem = distance (square_KING p Them) blockSq;
               dUs = distance (square_KING p Us) blockSq;
               ebonus1 =
                 (if is_horde p
                  then (if is_horde_color p Us then ebonus + (dThem * 5 * rr - 10 * rr)
                        else ebonus + (25 * rr - dUs * 2 * rr))
                  else if is_anti p then ebonus
                  else if is_atomic p then ebonus + dThem * 5 * rr
                  else (let e1 = ebonus + (dThem * 5 * rr - dUs * 2 * rr)
                        in if relative_rank Us blockSq \<noteq> 7
                           then e1 - distance (square_KING p Us) (sq_plus blockSq Up) * rr
                           else e1))
           in if empty_sq p blockSq
              then
                (let squaresToQueen = forward_file_bb Us s;
                     bb = forward_file_bb Them s AND pieces_pt_pt p ROOK QUEEN
                          AND attacks_from p ROOK s;
                     defendedSquares =
                       (if \<not> nonzero (pieces_c p Us AND bb)
                        then squaresToQueen AND attackedBy ev Us ALL_PIECES
                        else squaresToQueen);
                     unsafeSquares =
                       (if \<not> nonzero (pieces_c p Them AND bb)
                        then squaresToQueen AND (attackedBy ev Them ALL_PIECES OR pieces_c p Them)
                        else squaresToQueen);
                     k0 = (if \<not> nonzero unsafeSquares then 18
                           else if \<not> nonzero (unsafeSquares AND square_bb blockSq) then 8
                           else 0);
                     k = (if defendedSquares = squaresToQueen then k0 + 6
                          else if nonzero (defendedSquares AND square_bb blockSq) then k0 + 4
                          else k0)
                 in (mbonus + k * rr, ebonus1 + k * rr))
              else if nonzero (pieces_c p Us AND square_bb blockSq)
              then (mbonus + (rr + r * 2), ebonus1 + (rr + r * 2))
              else (mbonus, ebonus1))
        else (mbonus, ebonus))"

text \<open>The condition of line 1486 and the scaled pair.\<close>

definition passed_scale_down :: "color \<Rightarrow> square \<Rightarrow> evaluation \<Rightarrow> bool" where
  "passed_scale_down Us s ev =
     (\<not> pawn_passed (pos ev) Us (sq_plus s (pawn_push Us))
      \<or> nonzero (pieces_pt (pos ev) PAWN AND forward_file_bb Us s))"

definition passed_bonus_scaled :: "color \<Rightarrow> square \<Rightarrow> evaluation \<Rightarrow> int \<times> int" where
  "passed_bonus_scaled Us s ev =
    (let mbonus = fst (passed_bonus Us s ev);
         ebonus = snd (passed_bonus Us s ev)
     in if passed_scale_down Us s ev then (mbonus sdiv 2, ebonus sdiv 2)
        else (mbonus, ebonus))"

text \<open>The assertion of line 1409.\<close>

definition passed_pawn_assertion :: "color \<Rightarrow> square \<Rightarrow> evaluation \<Rightarrow> bool" where
  "passed_pawn_assertion Us s ev =
     (\<not> nonzero (pieces_c_pt (pos ev) (opposite Us) PAWN
                  AND forward_file_bb Us (sq_plus s (pawn_push Us))))"

text \<open>The body of the loop over the passed pawns (lines 1407 to 1489).\<close>

definition passed_body :: "color \<Rightarrow> evaluation \<Rightarrow> square \<Rightarrow> score \<Rightarrow> score" where
  "passed_body Us ev s score =
    (let Them = opposite Us;
         p = pos ev;
         bb = forward_file_bb Us s AND (attackedBy ev Them ALL_PIECES OR pieces_c p Them);
         score1 = score - score_mul HinderPassedPawn (int (popcount bb));
         mbonus = fst (passed_bonus_scaled Us s ev);
         ebonus = snd (passed_bonus_scaled Us s ev)
     in score1 + (make_score mbonus ebonus + tab PassedFile (file_of s)))"

definition evaluate_passed_pawns :: "color \<Rightarrow> evaluation \<Rightarrow> score" where
  "evaluate_passed_pawns Us ev =
    (if is_race (pos ev) then race_score Us ev
     else fold (passed_body Us ev) (pop_lsb_order (passed_pawns (pe ev) Us))
            (if is_koth (pos ev) then koth_score Us ev else SCORE_ZERO))"

subsubsection \<open>\<^verbatim>\<open>evaluate_threats\<close> (lines 1145 to 1360)\<close>

text \<open>
  The Anti and Losers dialects (lines 1157 to 1194 and 1204 to 1238) differ in their tables
  and in the piece-count penalty, which only Anti has.
\<close>

definition capture_threats ::
  "score list list list \<Rightarrow> score list \<Rightarrow> bool \<Rightarrow> color \<Rightarrow> evaluation \<Rightarrow> score" where
  "capture_threats Attacks Threats withPieceCount Us ev =
    (let Them = opposite Us;
         Up = (if Us = WHITE then NORTH else SOUTH);
         p = pos ev;
         TRank2BB = (if Us = WHITE then Rank2BB else Rank7BB);
         weCapture = nonzero (attackedBy ev Us ALL_PIECES AND pieces_c p Them);
         theyCapture = nonzero (attackedBy ev Them ALL_PIECES AND pieces_c p Us);
         theyDefended = nonzero (attackedBy ev Us ALL_PIECES AND pieces_c p Them
                                 AND attackedBy ev Them ALL_PIECES);
         row = tab2 (Attacks ! of_bool theyCapture) (of_bool theyDefended);
         score1 =
           (if weCapture
            then
              (let sc = fold (\<lambda>pt sc.
                           if nonzero (attackedBy ev Us pt AND pieces_c p Them
                                       AND NOT (attackedBy2 ev Us))
                           then sc - row (pt_index pt)
                           else if nonzero (attackedBy ev Us pt AND pieces_c p Them)
                           then sc - row (pt_index NO_PIECE_TYPE)
                           else sc)
                         [PAWN, KNIGHT, BISHOP, ROOK, QUEEN, KING] SCORE_ZERO
               in if withPieceCount \<and> theyCapture
                  then sc - score_mul PieceCountAnti (count p Us ALL_PIECES) else sc)
            else SCORE_ZERO)
     in if \<not> weCapture \<or> theyCapture
        then
          (let b = pieces_c_pt p Us PAWN;
               pawnPushes = shift Up (b OR (shift Up (b AND TRank2BB) AND NOT (pieces p)))
                            AND NOT (pieces p);
               pieceMoves = (attackedBy ev Us KNIGHT OR attackedBy ev Us BISHOP
                             OR attackedBy ev Us ROOK OR attackedBy ev Us QUEEN
                             OR attackedBy ev Us KING) AND NOT (pieces p);
               threats = pawnPushes OR pieceMoves;
               unprotectedPawnPushes = pawnPushes AND NOT (attackedBy ev Us ALL_PIECES);
               unprotectedPieceMoves = pieceMoves AND NOT (attackedBy2 ev Us);
               safeThreats = unprotectedPawnPushes OR unprotectedPieceMoves
           in score1
              + score_mul (tab Threats 0)
                  (int (popcount (attackedBy ev Them ALL_PIECES AND threats)))
              + score_mul (tab Threats 1)
                  (int (popcount (attackedBy ev Them ALL_PIECES AND safeThreats))))
        else score1)"

text \<open>The two loops of lines 1276 to 1292 over attacked enemy pieces.\<close>

definition threat_by :: "score list \<Rightarrow> color \<Rightarrow> evaluation \<Rightarrow> bitboard \<Rightarrow> score" where
  "threat_by Threat Us ev b =
     fold (\<lambda>s sc.
             (let pt = type_of (piece_on (pos ev) s);
                  sc1 = sc + tab Threat (pt_index pt)
              in if pt \<noteq> PAWN
                 then sc1 + score_mul ThreatByRank (int (relative_rank (opposite Us) s))
                 else sc1))
       (pop_lsb_order b) SCORE_ZERO"

text \<open>The Horde bonus of lines 1325 to 1345.\<close>

definition horde_wall_score :: "color \<Rightarrow> evaluation \<Rightarrow> score" where
  "horde_wall_score Us ev =
    (let Them = opposite Us;
         p = pos ev
     in if is_horde p \<and> is_horde_color p Them
           \<and> nonzero (pieces_c_pt p Us ROOK OR pieces_c_pt p Us QUEEN)
        then
          (let minw =
                 (if nonzero ((attackedBy ev Us QUEEN OR attackedBy ev Us ROOK) AND rank_bb 0)
                  then 0
                  else fold (\<lambda>f m.
                         (let pawns = popcount (pieces_c_pt p Them PAWN AND file_bb f);
                              pawnsl = (if f > 0
                                        then min (popcount (pieces_c_pt p Them PAWN
                                                            AND file_bb (f - 1))) pawns
                                        else 0);
                              pawnsr = (if f < 7
                                        then min (popcount (pieces_c_pt p Them PAWN
                                                            AND file_bb (f + 1))) pawns
                                        else 0)
                          in min m (pawnsl + pawnsr)))
                       [0 ..< 8] 8)
           in score_div
                (score_div (score_mul ThreatByHangingPawn (count p Them PAWN)) (1 + int minw))
                (if nonzero (pieces_c_pt p Us QUEEN) then 2 else 4))
        else SCORE_ZERO)"

text \<open>The standard dialect (lines 1241 to 1354).\<close>

definition standard_threats :: "color \<Rightarrow> evaluation \<Rightarrow> score" where
  "standard_threats Us ev =
    (let Them = opposite Us;
         Up = (if Us = WHITE then NORTH else SOUTH);
         Left = (if Us = WHITE then NORTH_WEST else SOUTH_EAST);
         Right = (if Us = WHITE then NORTH_EAST else SOUTH_WEST);
         TRank3BB = (if Us = WHITE then Rank3BB else Rank6BB);
         p = pos ev;
         weak0 = (pieces_c p Them XOR pieces_c_pt p Them PAWN) AND attackedBy ev Us PAWN;
         byPawn =
           (if nonzero weak0
            then
              (let b = pieces_c_pt p Us PAWN
                       AND (NOT (attackedBy ev Them ALL_PIECES) OR attackedBy ev Us ALL_PIECES);
                   safeThreats = (shift Right b OR shift Left b) AND weak0
               in score_mul ThreatBySafePawn (int (popcount safeThreats))
                  + (if nonzero (weak0 XOR safeThreats) then ThreatByHangingPawn
                     else SCORE_ZERO))
            else SCORE_ZERO);
         stronglyProtected = attackedBy ev Them PAWN
                             OR (attackedBy2 ev Them AND NOT (attackedBy2 ev Us));
         defended = (pieces_c p Them XOR pieces_c_pt p Them PAWN) AND stronglyProtected;
         weak = pieces_c p Them AND NOT stronglyProtected AND attackedBy ev Us ALL_PIECES;
         byPiece =
           (if nonzero (defended OR weak)
            then
              threat_by ThreatByMinor Us ev
                ((defended OR weak) AND (attackedBy ev Us KNIGHT OR attackedBy ev Us BISHOP))
              + threat_by ThreatByRook Us ev
                  ((pieces_c_pt p Them QUEEN OR weak) AND attackedBy ev Us ROOK)
              + score_mul Hanging
                  (int (popcount (weak AND NOT (attackedBy ev Them ALL_PIECES))))
              + (let b = weak AND attackedBy ev Us KING
                 in if nonzero b then tab ThreatByKing (of_bool (more_than_one b))
                    else SCORE_ZERO)
            else SCORE_ZERO);
         unopposed =
           (if nonzero (pieces_c_pt_pt p Us ROOK QUEEN)
            then score_mul WeakUnopposedPawn (weak_unopposed (pe ev) Them) else SCORE_ZERO);
         push1 = shift Up (pieces_c_pt p Us PAWN) AND NOT (pieces p);
         push2 = push1 OR (shift Up (push1 AND TRank3BB) AND NOT (pieces p));
         push3 = push2 AND (NOT (attackedBy ev Them PAWN)
                            AND (attackedBy ev Us ALL_PIECES
                                 OR NOT (attackedBy ev Them ALL_PIECES)));
         push4 = (shift Left push3 OR shift Right push3)
                 AND pieces_c p Them AND NOT (attackedBy ev Us PAWN);
         pawnPush = score_mul ThreatByPawnPush (int (popcount push4));
         checks = (if is_three_check p then tab ChecksGivenBonus (checks_given p Us)
                   else SCORE_ZERO);
         safeThreats = NOT (pieces_c p Us) AND NOT (attackedBy2 ev Them) AND attackedBy2 ev Us;
         onQueen = (attackedBy ev Us BISHOP AND attackedBy ev Them QUEEN_DIAGONAL)
                   OR (attackedBy ev Us ROOK AND attackedBy ev Them QUEEN
                       AND NOT (attackedBy ev Them QUEEN_DIAGONAL))
     in byPawn + byPiece + unopposed + pawnPush + checks + horde_wall_score Us ev
        + score_mul ThreatByAttackOnQueen (int (popcount (onQueen AND safeThreats))))"

definition evaluate_threats :: "color \<Rightarrow> evaluation \<Rightarrow> score" where
  "evaluate_threats Us ev =
    (if is_anti (pos ev) then capture_threats AttacksAnti ThreatsAnti True Us ev
     else if is_atomic (pos ev) then SCORE_ZERO
     else if is_losers (pos ev) then capture_threats AttacksLosers ThreatsLosers False Us ev
     else standard_threats Us ev)"

subsubsection \<open>\<^verbatim>\<open>evaluate_space\<close> (lines 1509 to 1544)\<close>

definition space_safe :: "color \<Rightarrow> evaluation \<Rightarrow> bitboard" where
  "space_safe Us ev =
    (let Them = opposite Us;
         SpaceMask = (if Us = WHITE then CenterFiles AND (Rank2BB OR Rank3BB OR Rank4BB)
                      else CenterFiles AND (Rank7BB OR Rank6BB OR Rank5BB))
     in SpaceMask
        AND NOT (pieces_c_pt (pos ev) Us PAWN)
        AND NOT (attackedBy ev Them PAWN)
        AND (attackedBy ev Us ALL_PIECES OR NOT (attackedBy ev Them ALL_PIECES)))"

text \<open>The assertion of line 1531: the conversion to \<^verbatim>\<open>unsigned\<close> keeps the low 32 bits.\<close>

definition space_assertion :: "color \<Rightarrow> evaluation \<Rightarrow> bool" where
  "space_assertion Us ev =
     (take_bit 32 (drop_bit (if Us = WHITE then 32 else 0) (space_safe Us ev)) = 0)"

definition evaluate_space :: "color \<Rightarrow> evaluation \<Rightarrow> score" where
  "evaluate_space Us ev =
    (let p = pos ev;
         safe = space_safe Us ev;
         behind0 = pieces_c_pt p Us PAWN;
         behind1 = behind0 OR (if Us = WHITE then drop_bit 8 behind0 else push_bit 8 behind0);
         behind = behind1 OR (if Us = WHITE then drop_bit 16 behind1 else push_bit 16 behind1);
         bonus = int (popcount ((if Us = WHITE then push_bit 32 safe else drop_bit 32 safe)
                                OR (behind AND safe)));
         weight = count p Us ALL_PIECES - 2 * open_files (pe ev)
     in if is_koth p
        then make_score ((bonus * weight * weight) sdiv 22) 0
             + score_mul KothSafeCenter
                 (int (popcount (safe AND behind AND (Rank4BB OR Rank5BB)
                                 AND (FileDBB OR FileEBB))))
        else make_score ((bonus * weight * weight) sdiv 16) 0)"

subsubsection \<open>\<^verbatim>\<open>evaluate_initiative\<close> (lines 1551 to 1570)\<close>

definition initiative :: "evaluation \<Rightarrow> int" where
  "initiative ev =
    (let p = pos ev;
         kingDistance = distance_File (square_KING p WHITE) (square_KING p BLACK)
                        - distance_Rank (square_KING p WHITE) (square_KING p BLACK);
         bothFlanks = (nonzero (pieces_pt p PAWN AND QueenSide)
                       \<and> nonzero (pieces_pt p PAWN AND KingSide))
     in 8 * (pawn_asymmetry (pe ev) + kingDistance - 17) + 12 * count_pt p PAWN
        + 16 * of_bool bothFlanks)"

definition evaluate_initiative :: "evaluation \<Rightarrow> int \<Rightarrow> score" where
  "evaluate_initiative ev eg =
    (let v = ((of_bool (eg > 0) :: int) - of_bool (eg < 0)) * max (initiative ev) (- \<bar>eg\<bar>)
     in make_score 0 v)"

subsubsection \<open>\<^verbatim>\<open>evaluate_scale_factor\<close> (lines 1575 to 1615)\<close>

definition evaluate_scale_factor :: "globals \<Rightarrow> evaluation \<Rightarrow> int \<Rightarrow> int" where
  "evaluate_scale_factor g ev eg =
    (let p = pos ev;
         strongSide = (if eg > VALUE_DRAW then WHITE else BLACK);
         sf = scale_factor (me ev) strongSide;
         hordeOverride =
           (if is_horde p
               \<and> non_pawn_material_c p (if is_horde_color p WHITE then WHITE else BLACK)
                   \<ge> QueenValueMg g
               \<and> \<not> is_horde_color p strongSide
            then 10 else sf)
     in if is_atomic p then hordeOverride
        else if sf = SCALE_FACTOR_NORMAL \<or> sf = SCALE_FACTOR_ONEPAWN g
        then
          (if opposite_bishops p
           then
             (if non_pawn_material_c p WHITE = BishopValueMg g
                 \<and> non_pawn_material_c p BLACK = BishopValueMg g
              then (if more_than_one (pieces_pt p PAWN) then 31 else 9)
              else 46)
           else if \<bar>eg\<bar> \<le> BishopValueEg g
                   \<and> count p strongSide PAWN \<le> 2
                   \<and> \<not> pawn_passed p (opposite strongSide)
                         (square_KING p (opposite strongSide))
           then 37 + 7 * count p strongSide PAWN
           else hordeOverride)
        else hordeOverride)"

subsubsection \<open>\<^verbatim>\<open>value\<close> (lines 1622 to 1721) and \<^verbatim>\<open>Eval::evaluate\<close>\<close>

text \<open>The four \<^verbatim>\<open>return\<close> statements of \<^verbatim>\<open>value\<close>.\<close>

datatype exit_point = VariantEnd | SpecializedEval | LazyExit | FullEvaluation

text \<open>The score and the lazy value of lines 1641 to 1648.\<close>

definition seed_score :: "globals \<Rightarrow> evaluation \<Rightarrow> score" where
  "seed_score g ev =
     psq_score (pos ev) + imbalance (Material_probe g (pos ev)) + Contempt g
     + pawns_score (Pawns_probe g (pos ev))"

definition lazy_value :: "globals \<Rightarrow> evaluation \<Rightarrow> int" where
  "lazy_value g ev = (mg_value (seed_score g ev) + eg_value (seed_score g ev)) sdiv 2"

text \<open>
  Lines 1657 to 1663: both \<^verbatim>\<open>initialize\<close> calls and the eight \<^verbatim>\<open>evaluate_pieces\<close>
  calls, with the sum of the piece scores. C++ leaves the order of the two operands of
  each subtraction open; the White call is taken first here, and the other order is
  proved to give the same scores and the same object.
\<close>

definition pieces_pair ::
  "globals \<Rightarrow> piece_type \<Rightarrow> score \<times> evaluation \<Rightarrow> score \<times> evaluation" where
  "pieces_pair g Pt acc =
    (let w = evaluate_pieces g WHITE Pt (snd acc);
         b = evaluate_pieces g BLACK Pt (snd w)
     in (fst acc + (fst w - fst b), snd b))"

definition attack_tables :: "globals \<Rightarrow> score \<Rightarrow> evaluation \<Rightarrow> score \<times> evaluation" where
  "attack_tables g score ev =
     fold (pieces_pair g) [KNIGHT, BISHOP, ROOK, QUEEN]
       (score, initialize g BLACK (initialize g WHITE ev))"

text \<open>Lines 1665 to 1698: the score that enters the interpolation.\<close>

definition final_score :: "globals \<Rightarrow> evaluation \<Rightarrow> score" where
  "final_score g ev0 =
    (let ev1 = ev0\<lparr>me := Material_probe g (pos ev0)\<rparr>;
         ev2 = ev1\<lparr>pe := Pawns_probe g (pos ev1)\<rparr>;
         acc = attack_tables g (seed_score g ev0) ev2;
         ev = snd acc;
         p = pos ev;
         score1 = fst acc + (mobility ev WHITE - mobility ev BLACK);
         score2 = (if is_anti p \<or> is_extinction p \<or> is_race p then score1
                   else score1 + (evaluate_king g WHITE ev - evaluate_king g BLACK ev));
         score3 = score2 + (evaluate_threats WHITE ev - evaluate_threats BLACK ev);
         score4 = score3 + (evaluate_passed_pawns WHITE ev - evaluate_passed_pawns BLACK ev);
         score5 = (if is_horde p then score4
                   else if non_pawn_material p \<ge> SpaceThreshold (variant p)
                   then score4 + (evaluate_space WHITE ev - evaluate_space BLACK ev)
                   else score4)
     in if is_anti p \<or> is_horde p then score5
        else score5 + evaluate_initiative ev (eg_value score5))"

text \<open>The state in which \<^verbatim>\<open>evaluate_scale_factor\<close> runs.\<close>

definition final_state :: "globals \<Rightarrow> evaluation \<Rightarrow> evaluation" where
  "final_state g ev0 =
     snd (attack_tables g (seed_score g ev0)
            (ev0\<lparr>me := Material_probe g (pos ev0), pe := Pawns_probe g (pos ev0)\<rparr>))"

definition value_exit :: "globals \<Rightarrow> evaluation \<Rightarrow> exit_point \<times> int" where
  "value_exit g ev0 =
    (let p = pos ev0
     in if is_variant_end p then (VariantEnd, variant_result p)
        else if specialized_eval_exists (Material_probe g p)
        then (SpecializedEval, specialized_evaluate (Material_probe g p))
        else
          (let v = lazy_value g ev0
           in if variant p = CHESS_VARIANT \<and> \<bar>v\<bar> > LazyThreshold
              then (LazyExit, if side_to_move p = WHITE then v else - v)
              else
                (let score = final_score g ev0;
                     sf = evaluate_scale_factor g (final_state g ev0) (eg_value score);
                     v1 = mg_value score * game_phase (Material_probe g p)
                          + (eg_value score * (PHASE_MIDGAME - game_phase (Material_probe g p))
                             * sf) sdiv SCALE_FACTOR_NORMAL;
                     v2 = v1 sdiv PHASE_MIDGAME
                 in (FullEvaluation, if side_to_move p = WHITE then v2 else - v2))))"

definition "value" :: "globals \<Rightarrow> evaluation \<Rightarrow> int" where
  "value g ev0 = snd (value_exit g ev0)"

text \<open>
  \<^verbatim>\<open>Eval::evaluate\<close> (lines 1730 to 1733) constructs the object on the position; \<open>mem\<close>
  stands for the uninitialized members.
\<close>

definition Evaluation :: "position \<Rightarrow> evaluation \<Rightarrow> evaluation" where
  "Evaluation p mem = mem\<lparr>pos := p, mobility := (\<lambda>c. SCORE_ZERO)\<rparr>"

definition evaluate :: "globals \<Rightarrow> position \<Rightarrow> evaluation \<Rightarrow> int" where
  "evaluate g p mem = value g (Evaluation p mem) + Tempo g (variant p)"

subsection \<open>Notions used to state the properties\<close>

text \<open>Every square of \<open>a\<close> is a square of \<open>b\<close>.\<close>

definition bb_subset :: "bitboard \<Rightarrow> bitboard \<Rightarrow> bool" where
  "bb_subset a b = (a AND NOT b = 0)"


text \<open>
  The states of the object from \<^verbatim>\<open>initialize<c>\<close> onwards: \<^verbatim>\<open>initialize\<close> of the other
  colour, and, for either colour and each of the four piece types for which
  \<^verbatim>\<open>evaluate_pieces\<close> is instantiated, the reset at its entry and the merge of one piece.
  No other member function writes to the object.
\<close>

inductive after_initialize :: "globals \<Rightarrow> color \<Rightarrow> evaluation \<Rightarrow> bool" for g :: globals and c :: color where
  initialized: "after_initialize g c (initialize g c ev)"
| other_initialized:
    "after_initialize g c ev \<Longrightarrow> after_initialize g c (initialize g (opposite c) ev)"
| pieces_entered:
    "after_initialize g c ev \<Longrightarrow> Pt \<in> {KNIGHT, BISHOP, ROOK, QUEEN}
     \<Longrightarrow> after_initialize g c (pieces_entry Us Pt ev)"
| piece_merged:
    "after_initialize g c ev \<Longrightarrow> Pt \<in> {KNIGHT, BISHOP, ROOK, QUEEN}
     \<Longrightarrow> after_initialize g c (pieces_merge g Us Pt s ev)"

subsection \<open>Sample inputs\<close>

text \<open>
  A position with the two kings on e1 and e8 and nothing else, an empty pawn table entry,
  a material entry without specialized evaluation, and an object whose arrays are all
  zero. The concrete inputs below are updates of these.
\<close>

definition bare_kings :: position where
  "bare_kings =
    \<lparr> variant = CHESS_VARIANT,
      side_to_move = WHITE,
      is_chess960 = False,
      pieces = 0x1000000000000010,
      pieces_c = (\<lambda>c. if c = WHITE then 0x10 else 0x1000000000000000),
      pieces_pt = (\<lambda>pt. if pt = KING \<or> pt = ALL_PIECES then 0x1000000000000010 else 0),
      pieces_pt_pt = (\<lambda>pt1 pt2. if pt1 = KING \<or> pt2 = KING then 0x1000000000000010 else 0),
      pieces_c_pt = (\<lambda>c pt. if pt = KING then (if c = WHITE then 0x10 else 0x1000000000000000)
                             else 0),
      pieces_c_pt_pt = (\<lambda>c pt1 pt2. if pt1 = KING \<or> pt2 = KING
                                     then (if c = WHITE then 0x10 else 0x1000000000000000)
                                     else 0),
      squares = (\<lambda>c pt. if pt = KING then (if c = WHITE then [4] else [60]) else []),
      square_KING = (\<lambda>c. if c = WHITE then 4 else 60),
      piece_on = (\<lambda>s. if s = 4 then make_piece WHITE KING
                      else if s = 60 then make_piece BLACK KING else NO_PIECE),
      empty_sq = (\<lambda>s. s \<noteq> 4 \<and> s \<noteq> 60),
      count = (\<lambda>c pt. if pt = KING \<or> pt = ALL_PIECES then 1 else 0),
      count_pt = (\<lambda>pt. if pt = KING \<or> pt = ALL_PIECES then 2 else 0),
      count_in_hand = (\<lambda>c pt. 0),
      non_pawn_material_c = (\<lambda>c. 0),
      non_pawn_material = 0,
      attacks_from = (\<lambda>pt s. if pt = KING
                              then (if s = 4 then 0x3828
                                    else if s = 60 then 0x2838000000000000 else 0)
                              else 0),
      attackers_to = (\<lambda>s. 0),
      pinned_pieces = (\<lambda>c. 0),
      slider_blockers = (\<lambda>sliders s. 0),
      grid_bb = (\<lambda>s. 0),
      can_castle = (\<lambda>c. False),
      checks_given = (\<lambda>c. 0),
      is_horde_color = (\<lambda>c. False),
      opposite_bishops = False,
      pawn_passed = (\<lambda>c s. True),
      psq_score = SCORE_ZERO,
      is_variant_end = False,
      variant_result = 0 \<rparr>"

definition no_pawns :: pawns_entry where
  "no_pawns =
    \<lparr> pawns_score = SCORE_ZERO,
      pawn_attacks = (\<lambda>c. 0),
      pawn_attacks_span = (\<lambda>c. 0),
      passed_pawns = (\<lambda>c. 0),
      king_safety = (\<lambda>c s. SCORE_ZERO),
      semiopen_file = (\<lambda>c f. True),
      semiopen_side = (\<lambda>c f l. True),
      weak_unopposed = (\<lambda>c. 0),
      open_files = 8,
      pawn_asymmetry = 0,
      pawns_on_same_color_squares = (\<lambda>c s. 0) \<rparr>"

definition plain_material :: material_entry where
  "plain_material =
    \<lparr> specialized_eval_exists = False,
      specialized_evaluate = 0,
      imbalance = SCORE_ZERO,
      scale_factor = (\<lambda>c. 64),
      game_phase = 0 \<rparr>"

definition sample_globals :: globals where
  "sample_globals =
    \<lparr> Material_probe = (\<lambda>p. plain_material),
      Pawns_probe = (\<lambda>p. no_pawns),
      attacks_bb = (\<lambda>pt s occ. 0),
      LineBB = (\<lambda>s1 s2. 0),
      PseudoAttacks = (\<lambda>pt s. 0),
      KnightValueMg = 764,
      BishopValueMg = 826,
      BishopValueEg = 891,
      RookValueMg = 1282,
      QueenValueMg = 2526,
      SCALE_FACTOR_ONEPAWN = 48,
      Contempt = SCORE_ZERO,
      Tempo = (\<lambda>v. 20) \<rparr>"

definition blank :: evaluation where
  "blank =
    \<lparr> pos = bare_kings,
      me = plain_material,
      pe = no_pawns,
      mobilityArea = (\<lambda>c. 0),
      mobility = (\<lambda>c. SCORE_ZERO),
      attackedBy = (\<lambda>c pt. 0),
      attackedBy2 = (\<lambda>c. 0),
      kingRing = (\<lambda>c. 0),
      kingAttackersCount = (\<lambda>c. 0),
      kingAttackersWeight = (\<lambda>c. 0),
      kingAdjacentZoneAttacksCount = (\<lambda>c. 0) \<rparr>"

text \<open>
  Kings, one bishop each on squares of opposite colours, and one pawn each (e2 and e7);
  the piece values are those of \<open>sample_globals\<close>.
\<close>

definition bishop_ending :: evaluation where
  "bishop_ending =
     blank\<lparr>pos := bare_kings
              \<lparr>opposite_bishops := True,
               non_pawn_material_c := (\<lambda>c. 826),
               non_pawn_material := 1652,
               pieces_pt := (\<lambda>pt. if pt = PAWN then 0x0010000000001000
                                    else pieces_pt bare_kings pt),
               count_pt := (\<lambda>pt. if pt = PAWN then 2 else count_pt bare_kings pt)\<rparr>\<rparr>"

text \<open>
  The bare kings with a white knight on f3. The knight attacks d2, which the white king
  attacks too.
\<close>

definition knight_position :: position where
  "knight_position =
     bare_kings
       \<lparr>pieces := 0x1000000000200010,
        pieces_c := (\<lambda>c. if c = WHITE then 0x200010 else 0x1000000000000000),
        pieces_pt := (\<lambda>pt. if pt = KNIGHT then 0x200000
                             else if pt = ALL_PIECES then 0x1000000000200010
                             else pieces_pt bare_kings pt),
        pieces_c_pt := (\<lambda>c pt. if pt = KNIGHT then (if c = WHITE then 0x200000 else 0)
                                else pieces_c_pt bare_kings c pt),
        squares := (\<lambda>c pt. if pt = KNIGHT then (if c = WHITE then [21] else [])
                            else squares bare_kings c pt),
        piece_on := (\<lambda>s. if s = 21 then make_piece WHITE KNIGHT else piece_on bare_kings s),
        empty_sq := (\<lambda>s. s \<noteq> 21 \<and> empty_sq bare_kings s),
        count := (\<lambda>c pt. if pt = KNIGHT then (if c = WHITE then 1 else 0)
                          else if pt = ALL_PIECES then (if c = WHITE then 2 else 1)
                          else count bare_kings c pt),
        count_pt := (\<lambda>pt. if pt = KNIGHT then 1 else if pt = ALL_PIECES then 3
                            else count_pt bare_kings pt),
        non_pawn_material_c := (\<lambda>c. if c = WHITE then 764 else 0),
        non_pawn_material := 764,
        attacks_from := (\<lambda>pt s. if pt = KNIGHT \<and> s = 21 then 0x5088008850
                                 else attacks_from bare_kings pt s)\<rparr>"

definition knight_sample :: evaluation where
  "knight_sample = blank\<lparr>pos := knight_position\<rparr>"

text \<open>
  A Horde position in which White, the horde, has no king (\<^verbatim>\<open>square<KING>(WHITE)\<close> is
  \<^verbatim>\<open>SQ_NONE\<close>) and Black has two queens; and the bare kings with two black queens
  counted. In both no piece attacks a king ring.
\<close>

definition horde_sample :: evaluation where
  "horde_sample =
     blank\<lparr>pos := bare_kings
              \<lparr>variant := HORDE_VARIANT,
               square_KING := (\<lambda>c. if c = WHITE then SQ_NONE else 60),
               is_horde_color := (\<lambda>c. c = WHITE),
               count := (\<lambda>c pt. if c = BLACK \<and> pt = QUEEN then 2 else count bare_kings c pt)\<rparr>\<rparr>"


definition two_queens_sample :: evaluation where
  "two_queens_sample =
     blank\<lparr>pos := bare_kings
              \<lparr>count := (\<lambda>c pt. if c = BLACK \<and> pt = QUEEN then 2 else count bare_kings c pt)\<rparr>\<rparr>"

text \<open>
  Kings on e1 and e8, a white pawn on e5 that the pawn table lists as a (candidate) passed
  pawn, and a black pawn on e6 in front of it.
\<close>

definition passer_position :: position where
  "passer_position =
     bare_kings
       \<lparr>pieces := 0x1000101000000010,
        pieces_c := (\<lambda>c. if c = WHITE then 0x1000000010 else 0x1000100000000000),
        pieces_pt := (\<lambda>pt. if pt = PAWN then 0x101000000000
                             else if pt = ALL_PIECES then 0x1000101000000010
                             else pieces_pt bare_kings pt),
        pieces_c_pt := (\<lambda>c pt. if pt = PAWN
                                then (if c = WHITE then 0x1000000000 else 0x100000000000)
                                else pieces_c_pt bare_kings c pt),
        squares := (\<lambda>c pt. if pt = PAWN then (if c = WHITE then [36] else [44])
                            else squares bare_kings c pt),
        piece_on := (\<lambda>s. if s = 36 then make_piece WHITE PAWN
                          else if s = 44 then make_piece BLACK PAWN
                          else piece_on bare_kings s),
        empty_sq := (\<lambda>s. s \<noteq> 36 \<and> s \<noteq> 44 \<and> empty_sq bare_kings s),
        count := (\<lambda>c pt. if pt = PAWN then 1 else if pt = ALL_PIECES then 2
                          else count bare_kings c pt),
        count_pt := (\<lambda>pt. if pt = PAWN then 2 else if pt = ALL_PIECES then 4
                            else count_pt bare_kings pt),
        psq_score := make_score 30 40\<rparr>"

definition passer_pawns :: pawns_entry where
  "passer_pawns =
     no_pawns
       \<lparr>pawns_score := make_score 10 20,
        pawn_attacks := (\<lambda>c. if c = WHITE then 0x280000000000 else 0x2800000000),
        pawn_attacks_span := (\<lambda>c. if c = WHITE then 0x2828280000000000 else 0x2828282828),
        passed_pawns := (\<lambda>c. if c = WHITE then 0x1000000000 else 0),
        semiopen_file := (\<lambda>c f. f \<noteq> 4),
        open_files := 7\<rparr>"

definition passer_globals :: globals where
  "passer_globals =
     sample_globals
       \<lparr>Material_probe := (\<lambda>p. plain_material\<lparr>game_phase := 32\<rparr>),
        Pawns_probe := (\<lambda>p. passer_pawns)\<rparr>"

definition passer_sample :: evaluation where
  "passer_sample = blank\<lparr>pos := passer_position, pe := passer_pawns\<rparr>"

text \<open>
  A standard position, Black to move, whose piece-square score is far beyond the lazy
  threshold; the lazy exit reads nothing else of the position.
\<close>

definition lazy_sample :: evaluation where
  "lazy_sample =
     blank\<lparr>pos := bare_kings\<lparr>psq_score := make_score 3800 4001, side_to_move := BLACK\<rparr>\<rparr>"

section \<open>Properties\<close>

lemmas file_rank_defs =
  FileABB_def FileBBB_def FileCBB_def FileDBB_def FileEBB_def FileFBB_def FileGBB_def
  FileHBB_def Rank1BB_def Rank2BB_def Rank3BB_def Rank4BB_def Rank5BB_def Rank6BB_def
  Rank7BB_def Rank8BB_def AllSquares_def


lemmas sample_defs =
  bare_kings_def no_pawns_def plain_material_def sample_globals_def blank_def

subsection \<open>Counting bits\<close>

lemma count_bits_Suc:
  "length (filter (bit (n::nat)) [0..<Suc k])
     = of_bool (odd n) + length (filter (bit (n div 2)) [0..<k])"
proof -
  have "[0..<Suc k] = 0 # map Suc [0..<k]"
    by (simp add: upt_conv_Cons map_Suc_upt del: upt_Suc)
  then show ?thesis
    by (simp add: filter_map comp_def bit_Suc bit_0 del: upt_Suc)
qed

lemma count_bits_zero_iff:
  "(n::nat) < 2 ^ k \<Longrightarrow> length (filter (bit n) [0..<k]) = 0 \<longleftrightarrow> n = 0"
proof (induction k arbitrary: n)
  case 0
  then show ?case by simp
next
  case (Suc k)
  have "n div 2 < 2 ^ k" using Suc.prems by auto
  from Suc.IH [OF this] show ?case
    by (auto simp add: count_bits_Suc simp del: upt_Suc elim: oddE)
qed

lemma and_pred_odd: "odd (n::nat) \<Longrightarrow> n AND (n - 1) = n - 1"
  by (subst and_nat_unfold) (auto elim!: oddE)

lemma and_pred_even: "even (n::nat) \<Longrightarrow> n AND (n - 1) = 2 * (n div 2 AND (n div 2 - 1))"
proof (cases "n = 0")
  case True
  then show ?thesis by simp
next
  case False
  assume "even n"
  then obtain m where m: "n = 2 * m" by (auto elim: evenE)
  with False have "m > 0" by simp
  then have "(2 * m - 1) div 2 = m - 1" by (cases m) auto
  then show ?thesis
    using \<open>m > 0\<close> by (subst and_nat_unfold) (simp add: m)
qed

lemma more_than_one_nat:
  "(n::nat) < 2 ^ k \<Longrightarrow> n AND (n - 1) \<noteq> 0 \<longleftrightarrow> 1 < length (filter (bit n) [0..<k])"
proof (induction k arbitrary: n)
  case 0
  then show ?case by simp
next
  case (Suc k)
  have half: "n div 2 < 2 ^ k" using Suc.prems by auto
  show ?case
  proof (cases "odd n")
    case True
    have "n - 1 \<noteq> 0 \<longleftrightarrow> n div 2 \<noteq> 0"
      using True by (auto elim!: oddE)
    then have "n AND (n - 1) \<noteq> 0 \<longleftrightarrow> n div 2 \<noteq> 0"
      by (simp only: and_pred_odd [OF True])
    with True count_bits_zero_iff [OF half] show ?thesis
      by (simp add: count_bits_Suc del: upt_Suc)
  next
    case False
    then have e: "even n" by simp
    have "n AND (n - 1) \<noteq> 0 \<longleftrightarrow> n div 2 AND (n div 2 - 1) \<noteq> 0"
      unfolding and_pred_even [OF e] by simp
    with False Suc.IH [OF half] show ?thesis
      by (simp add: count_bits_Suc del: upt_Suc)
  qed
qed

lemma popcount_unat: "popcount b = length (filter (bit (unat b)) [0..<64])"
proof -
  have "filter (bit b) [0..<64] = filter (bit (unat b)) [0..<64]"
    by (rule filter_cong) (simp_all add: bit_unsigned_iff)
  then show ?thesis by (simp add: popcount_def)
qed

lemma more_than_one_popcount: "more_than_one b \<longleftrightarrow> 1 < popcount b"
proof (cases "b = 0")
  case True
  then show ?thesis by (simp add: more_than_one_def popcount_def)
next
  case False
  have lt: "unat b < 2 ^ 64" using unsigned_less [of b] by simp
  have "b AND (b - 1) \<noteq> 0 \<longleftrightarrow> unat (b AND (b - 1)) \<noteq> 0"
    by (simp add: unat_eq_0)
  also have "unat (b AND (b - 1)) = unat b AND (unat b - 1)"
    using False by (simp add: unsigned_and_eq unat_minus_one)
  finally show ?thesis
    using more_than_one_nat [OF lt] by (simp add: more_than_one_def popcount_unat)
qed

lemma popcount_card: "popcount b = card {n. bit b n}"
proof -
  have "{n. bit b n} \<inter> set [0..<64] = {n. bit b n}"
    by (auto dest: bit_imp_le_length)
  then show ?thesis
    using distinct_length_filter [of "[0..<64]" "bit b"] by (simp add: popcount_def)
qed

lemma popcount_push_bit:
  assumes "\<And>n. bit b n \<Longrightarrow> n + k < 64"
  shows "popcount (push_bit k b) = popcount b"
proof -
  have "{n. bit (push_bit k b) n} = (\<lambda>n. n + k) ` {n. bit b n}"
  proof (intro set_eqI iffI)
    fix n assume "n \<in> {n. bit (push_bit k b) n}"
    then have "k \<le> n" "bit b (n - k)" by (auto simp add: bit_push_bit_iff)
    then show "n \<in> (\<lambda>n. n + k) ` {n. bit b n}"
      by (intro image_eqI [where x = "n - k"]) auto
  next
    fix n assume "n \<in> (\<lambda>n. n + k) ` {n. bit b n}"
    then show "n \<in> {n. bit (push_bit k b) n}"
      using assms by (auto simp add: bit_push_bit_iff)
  qed
  then show ?thesis
    by (simp add: popcount_card card_image)
qed

lemma popcount_drop_bit:
  assumes "\<And>n. bit b n \<Longrightarrow> k \<le> n"
  shows "popcount (drop_bit k b) = popcount b"
proof -
  have "{n. bit b n} = (\<lambda>n. n + k) ` {n. bit (drop_bit k b) n}"
  proof (intro set_eqI iffI)
    fix n assume n: "n \<in> {n. bit b n}"
    with assms have "k \<le> n" by simp
    with n show "n \<in> (\<lambda>n. n + k) ` {n. bit (drop_bit k b) n}"
      by (intro image_eqI [where x = "n - k"]) (auto simp add: bit_drop_bit_eq)
  next
    fix n assume "n \<in> (\<lambda>n. n + k) ` {n. bit (drop_bit k b) n}"
    then show "n \<in> {n. bit b n}"
      by (auto simp add: bit_drop_bit_eq add.commute)
  qed
  then show ?thesis
    by (simp add: popcount_card card_image)
qed

subsection \<open>Initiative\<close>

lemma initiative_blank: "initiative blank = - 192"
  by (simp add: initiative_def sample_defs distance_File_def distance_Rank_def
      file_of_def rank_of_def)

text \<open>
  Claim C5, as amended. For every endgame value \<open>eg \<noteq> 0\<close>, \<^verbatim>\<open>evaluate_initiative(eg)\<close>
  returns the score \<open>(0, v)\<close> with \<open>v = sign(eg) * max(initiative, -|eg|)\<close>, where
  \<open>initiative = 8 * (pawn_asymmetry + kingDistance - 17) + 12 * pawn_count + 16 * bothFlanks\<close>.
  The corrected endgame value \<open>eg + v\<close> never takes the opposite sign: it has the sign of
  \<open>eg\<close> or it is zero, and it is zero exactly when \<open>initiative \<le> -|eg|\<close>.
\<close>

theorem evaluate_initiative_capped:
  assumes "eg \<noteq> 0"
  shows "evaluate_initiative ev eg = make_score 0 (sgn eg * max (initiative ev) (- \<bar>eg\<bar>))
    \<and> initiative ev =
        8 * (pawn_asymmetry (pe ev)
             + (distance_File (square_KING (pos ev) WHITE) (square_KING (pos ev) BLACK)
                - distance_Rank (square_KING (pos ev) WHITE) (square_KING (pos ev) BLACK))
             - 17)
        + 12 * count_pt (pos ev) PAWN
        + 16 * of_bool (pieces_pt (pos ev) PAWN AND QueenSide \<noteq> 0
                        \<and> pieces_pt (pos ev) PAWN AND KingSide \<noteq> 0)
    \<and> (sgn (eg + eg_value (evaluate_initiative ev eg)) = sgn eg
        \<or> eg + eg_value (evaluate_initiative ev eg) = 0)
    \<and> (eg + eg_value (evaluate_initiative ev eg) = 0 \<longleftrightarrow> initiative ev \<le> - \<bar>eg\<bar>)"
proof -
  have sg: "(of_bool (eg > 0) :: int) - of_bool (eg < 0) = sgn eg"
    using assms by (simp add: sgn_if)
  have v: "evaluate_initiative ev eg = make_score 0 (sgn eg * max (initiative ev) (- \<bar>eg\<bar>))"
    by (simp add: evaluate_initiative_def Let_def sg)
  have i: "initiative ev =
        8 * (pawn_asymmetry (pe ev)
             + (distance_File (square_KING (pos ev) WHITE) (square_KING (pos ev) BLACK)
                - distance_Rank (square_KING (pos ev) WHITE) (square_KING (pos ev) BLACK))
             - 17)
        + 12 * count_pt (pos ev) PAWN
        + 16 * of_bool (pieces_pt (pos ev) PAWN AND QueenSide \<noteq> 0
                        \<and> pieces_pt (pos ev) PAWN AND KingSide \<noteq> 0)"
    by (simp add: initiative_def Let_def)
  have s: "sgn (eg + eg_value (evaluate_initiative ev eg)) = sgn eg
        \<or> eg + eg_value (evaluate_initiative ev eg) = 0"
    using assms unfolding v by (cases "eg > 0") (auto simp add: sgn_if max_def)
  have z: "eg + eg_value (evaluate_initiative ev eg) = 0 \<longleftrightarrow> initiative ev \<le> - \<bar>eg\<bar>"
    using assms unfolding v by (cases "eg > 0") (auto simp add: sgn_if max_def)
  from v i s z show ?thesis by blast
qed

text \<open>
  With the kings on e1 and e8 and no pawns the initiative is \<open>-192\<close>; an endgame value of
  50 is corrected by \<open>-50\<close>.
\<close>

theorem evaluate_initiative_capped_witness:
  "(50::int) \<noteq> 0 \<and> evaluate_initiative blank 50 = make_score 0 (- 50)
   \<and> 50 + eg_value (evaluate_initiative blank 50) = 0"
  using evaluate_initiative_capped [of 50 blank] initiative_blank by simp

text \<open>
  Claim C5 as stated says that \<open>eg + v\<close> has the same sign as \<open>eg\<close>. On the same input the
  corrected endgame value is 0, whose sign is not that of 50.
\<close>

theorem evaluate_initiative_sign_counterexample:
  "sgn (50 + eg_value (evaluate_initiative blank 50)) \<noteq> sgn (50::int)"
  by (simp add: evaluate_initiative_def initiative_blank)

subsection \<open>Scale factor\<close>

text \<open>
  Claim C6. In a position that is not Atomic, where the material table's scale factor for
  the strong side is the normal or the one-pawn value and the bishops are of opposite
  colours, \<^verbatim>\<open>evaluate_scale_factor\<close> returns 9 when the non-pawn material of each side
  is exactly one bishop and at most one pawn is on the board, 31 when it is exactly one
  bishop each and more than one pawn is on the board, and 46 otherwise; with one pawn each
  (two pawns on the board) it returns 31.
\<close>

theorem evaluate_scale_factor_opposite_bishops:
  assumes "\<not> is_atomic (pos ev)"
    and "scale_factor (me ev) (if eg > VALUE_DRAW then WHITE else BLACK) = SCALE_FACTOR_NORMAL
         \<or> scale_factor (me ev) (if eg > VALUE_DRAW then WHITE else BLACK)
            = SCALE_FACTOR_ONEPAWN g"
    and "opposite_bishops (pos ev)"
  shows "evaluate_scale_factor g ev eg =
      (if non_pawn_material_c (pos ev) WHITE = BishopValueMg g
          \<and> non_pawn_material_c (pos ev) BLACK = BishopValueMg g
       then (if popcount (pieces_pt (pos ev) PAWN) \<le> 1 then 9 else 31)
       else 46)
    \<and> (non_pawn_material_c (pos ev) WHITE = BishopValueMg g
        \<and> non_pawn_material_c (pos ev) BLACK = BishopValueMg g
        \<and> popcount (pieces_pt (pos ev) PAWN) = 2
        \<longrightarrow> evaluate_scale_factor g ev eg = 31)"
proof -
  have m: "more_than_one (pieces_pt (pos ev) PAWN)
           \<longleftrightarrow> \<not> popcount (pieces_pt (pos ev) PAWN) \<le> 1"
    by (auto simp add: more_than_one_popcount)
  show ?thesis
    using assms by (auto simp add: evaluate_scale_factor_def Let_def m)
qed

lemma popcount_two_pawns: "popcount 0x0010000000001000 = 2"
  by code_simp

theorem evaluate_scale_factor_opposite_bishops_witness:
  "\<not> is_atomic (pos bishop_ending)
   \<and> scale_factor (me bishop_ending) WHITE = SCALE_FACTOR_NORMAL
   \<and> opposite_bishops (pos bishop_ending)
   \<and> popcount (pieces_pt (pos bishop_ending) PAWN) = 2
   \<and> evaluate_scale_factor sample_globals bishop_ending 30 = 31"
proof -
  have a: "\<not> is_atomic (pos bishop_ending)"
    by (simp add: bishop_ending_def sample_defs is_atomic_def)
  have b: "scale_factor (me bishop_ending) (if (30::int) > VALUE_DRAW then WHITE else BLACK)
           = SCALE_FACTOR_NORMAL"
    by (simp add: bishop_ending_def sample_defs SCALE_FACTOR_NORMAL_def VALUE_DRAW_def)
  have c: "opposite_bishops (pos bishop_ending)"
    by (simp add: bishop_ending_def sample_defs)
  have d: "popcount (pieces_pt (pos bishop_ending) PAWN) = 2"
    by (simp add: bishop_ending_def sample_defs popcount_two_pawns)
  have e: "non_pawn_material_c (pos bishop_ending) WHITE = BishopValueMg sample_globals
           \<and> non_pawn_material_c (pos bishop_ending) BLACK = BishopValueMg sample_globals"
    by (simp add: bishop_ending_def sample_defs)
  from evaluate_scale_factor_opposite_bishops [of bishop_ending 30 sample_globals, OF a _ c] b d e
  have "evaluate_scale_factor sample_globals bishop_ending 30 = 31"
    by simp
  with a b c d show ?thesis
    by (simp add: VALUE_DRAW_def)
qed

subsection \<open>Initialization\<close>

lemma pos_set_attackedBy [simp]: "pos (set_attackedBy c pt v ev) = pos ev"
  and pe_set_attackedBy [simp]: "pe (set_attackedBy c pt v ev) = pe ev"
  and attackedBy2_set_attackedBy [simp]: "attackedBy2 (set_attackedBy c pt v ev) = attackedBy2 ev"
  and kingRing_set_attackedBy [simp]: "kingRing (set_attackedBy c pt v ev) = kingRing ev"
  and kingAttackersCount_set_attackedBy [simp]:
    "kingAttackersCount (set_attackedBy c pt v ev) = kingAttackersCount ev"
  and mobilityArea_set_attackedBy [simp]: "mobilityArea (set_attackedBy c pt v ev) = mobilityArea ev"
  and attackedBy_set_attackedBy [simp]:
    "attackedBy (set_attackedBy c pt v ev) c' pt' = (if c' = c \<and> pt' = pt then v else attackedBy ev c' pt')"
  by (simp_all add: set_attackedBy_def)








subsection \<open>Attack tables\<close>

lemma pieces_merge_attackedBy:
  assumes "Pt \<in> {KNIGHT, BISHOP, ROOK, QUEEN}"
  shows "attackedBy (pieces_merge g Us Pt s ev) c pt =
    (if c = Us \<and> pt = Pt then attackedBy ev Us Pt OR piece_attacks g Us Pt s ev
     else if c = Us \<and> pt = ALL_PIECES
       then attackedBy ev Us ALL_PIECES OR (attackedBy ev Us Pt OR piece_attacks g Us Pt s ev)
     else if c = Us \<and> pt = QUEEN_DIAGONAL \<and> Pt = QUEEN
       then attackedBy ev Us QUEEN_DIAGONAL
            OR (piece_attacks g Us Pt s ev AND PseudoAttacks g BISHOP s)
     else attackedBy ev c pt)"
  using assms unfolding pieces_merge_def Let_def by auto

lemma pieces_merge_attackedBy2:
  "attackedBy2 (pieces_merge g Us Pt s ev) c =
    (if c = Us
     then attackedBy2 ev Us OR (attackedBy ev Us ALL_PIECES AND piece_attacks g Us Pt s ev)
     else attackedBy2 ev c)"
  unfolding pieces_merge_def Let_def by auto

lemma pieces_entry_attackedBy:
  assumes "Pt \<in> {KNIGHT, BISHOP, ROOK, QUEEN}"
  shows "attackedBy (pieces_entry Us Pt ev) c pt =
    (if c = Us \<and> (pt = Pt \<or> (pt = QUEEN_DIAGONAL \<and> Pt = QUEEN)) then 0
     else attackedBy ev c pt)"
  using assms unfolding pieces_entry_def Let_def by auto

lemma pieces_entry_attackedBy2: "attackedBy2 (pieces_entry Us Pt ev) = attackedBy2 ev"
  unfolding pieces_entry_def Let_def by auto

lemma initialize_attackedBy:
  "attackedBy (initialize g Us ev) c pt =
    (if c = Us \<and> pt = KING then king_attacks Us ev
     else if c = Us \<and> pt = PAWN then pawn_attacks (pe ev) Us
     else if c = Us \<and> pt = ALL_PIECES then king_attacks Us ev OR pawn_attacks (pe ev) Us
     else attackedBy ev c pt)"
  unfolding initialize_def Let_def by (auto simp add: king_attacks_def)

lemma initialize_attackedBy2:
  "attackedBy2 (initialize g Us ev) c =
    (if c = Us then king_attacks Us ev AND pawn_attacks (pe ev) Us else attackedBy2 ev c)"
  unfolding initialize_def Let_def by (auto simp add: king_attacks_def)


lemma snd_pieces_body [simp]:
  "snd (pieces_body g Us Pt s acc) = pieces_merge g Us Pt s (snd acc)"
  by (simp add: pieces_body_def)

lemma fold_pieces_frame:
  assumes "Pt \<in> {KNIGHT, BISHOP, ROOK, QUEEN}"
    and "c \<noteq> Us \<or> pt \<notin> {Pt, ALL_PIECES, QUEEN_DIAGONAL}"
  shows "attackedBy (snd (fold (pieces_body g Us Pt) xs acc)) c pt = attackedBy (snd acc) c pt"
  using assms
proof (induction xs arbitrary: acc)
  case Nil
  then show ?case by simp
next
  case (Cons x xs)
  have "attackedBy (snd (pieces_body g Us Pt x acc)) c pt = attackedBy (snd acc) c pt"
    using Cons.prems by (auto simp add: pieces_merge_attackedBy)
  with Cons show ?case by simp
qed

lemma fold_pieces_all:
  assumes "Pt \<in> {KNIGHT, BISHOP, ROOK, QUEEN}"
    and "attackedBy (snd acc) Us ALL_PIECES = A OR attackedBy (snd acc) Us Pt"
  shows "attackedBy (snd (fold (pieces_body g Us Pt) xs acc)) Us ALL_PIECES
         = A OR attackedBy (snd (fold (pieces_body g Us Pt) xs acc)) Us Pt"
  using assms
proof (induction xs arbitrary: acc)
  case Nil
  then show ?case by simp
next
  case (Cons x xs)
  have ne: "Pt \<noteq> ALL_PIECES" using Cons.prems(1) by auto
  have "attackedBy (snd (pieces_body g Us Pt x acc)) Us ALL_PIECES
        = A OR attackedBy (snd (pieces_body g Us Pt x acc)) Us Pt"
    using Cons.prems ne
    by (simp add: pieces_merge_attackedBy or.assoc [symmetric])
  with Cons.IH [OF Cons.prems(1) this] show ?case by simp
qed

lemma evaluate_pieces_frame:
  assumes "Pt \<in> {KNIGHT, BISHOP, ROOK, QUEEN}"
    and "c \<noteq> Us \<or> pt \<notin> {Pt, ALL_PIECES, QUEEN_DIAGONAL}"
  shows "attackedBy (snd (evaluate_pieces g Us Pt ev)) c pt = attackedBy ev c pt"
proof -
  have "attackedBy (pieces_entry Us Pt ev) c pt = attackedBy ev c pt"
    using assms by (auto simp add: pieces_entry_attackedBy)
  then show ?thesis
    using fold_pieces_frame [OF assms] by (simp add: evaluate_pieces_def)
qed

lemma evaluate_pieces_all:
  assumes "Pt \<in> {KNIGHT, BISHOP, ROOK, QUEEN}"
  shows "attackedBy (snd (evaluate_pieces g Us Pt ev)) Us ALL_PIECES
         = attackedBy ev Us ALL_PIECES OR attackedBy (snd (evaluate_pieces g Us Pt ev)) Us Pt"
proof -
  have "attackedBy (snd (SCORE_ZERO, pieces_entry Us Pt ev)) Us ALL_PIECES
        = attackedBy ev Us ALL_PIECES OR attackedBy (snd (SCORE_ZERO, pieces_entry Us Pt ev)) Us Pt"
    using assms by (auto simp add: pieces_entry_attackedBy)
  from fold_pieces_all [OF assms this] show ?thesis
    by (simp add: evaluate_pieces_def)
qed

lemma pieces_pair_frame:
  assumes "Pt \<in> {KNIGHT, BISHOP, ROOK, QUEEN}"
    and "pt \<notin> {Pt, ALL_PIECES, QUEEN_DIAGONAL}"
  shows "attackedBy (snd (pieces_pair g Pt acc)) c pt = attackedBy (snd acc) c pt"
  using assms by (simp add: pieces_pair_def Let_def evaluate_pieces_frame)

lemma pieces_pair_all:
  assumes "Pt \<in> {KNIGHT, BISHOP, ROOK, QUEEN}"
  shows "attackedBy (snd (pieces_pair g Pt acc)) c ALL_PIECES
         = attackedBy (snd acc) c ALL_PIECES OR attackedBy (snd (pieces_pair g Pt acc)) c Pt"
proof (cases c)
  case WHITE
  then show ?thesis
    using evaluate_pieces_all [OF assms, of g WHITE "snd acc"]
    by (simp add: pieces_pair_def Let_def evaluate_pieces_frame [OF assms])
next
  case BLACK
  then show ?thesis
    using evaluate_pieces_all [OF assms, of g BLACK "snd (evaluate_pieces g WHITE Pt (snd acc))"]
    by (simp add: pieces_pair_def Let_def evaluate_pieces_frame [OF assms])
qed

text \<open>
  Claim C3. For each colour \<open>c\<close>, after \<^verbatim>\<open>initialize<c>\<close> and the four calls
  \<^verbatim>\<open>evaluate_pieces<c, Pt>\<close> for knights, bishops, rooks and queens, as \<^verbatim>\<open>value\<close> runs
  them, \<^verbatim>\<open>attackedBy[c][ALL_PIECES]\<close> is the union of \<^verbatim>\<open>attackedBy[c][pt]\<close> over pawn,
  knight, bishop, rook, queen and king.
\<close>

theorem attackedBy_all_pieces_union:
  "attackedBy (snd (attack_tables g sc ev)) c ALL_PIECES =
     attackedBy (snd (attack_tables g sc ev)) c PAWN
     OR attackedBy (snd (attack_tables g sc ev)) c KNIGHT
     OR attackedBy (snd (attack_tables g sc ev)) c BISHOP
     OR attackedBy (snd (attack_tables g sc ev)) c ROOK
     OR attackedBy (snd (attack_tables g sc ev)) c QUEEN
     OR attackedBy (snd (attack_tables g sc ev)) c KING"
proof -
  define e0 where "e0 = (sc, initialize g BLACK (initialize g WHITE ev))"
  define e1 where "e1 = pieces_pair g KNIGHT e0"
  define e2 where "e2 = pieces_pair g BISHOP e1"
  define e3 where "e3 = pieces_pair g ROOK e2"
  define e4 where "e4 = pieces_pair g QUEEN e3"
  have e4: "attack_tables g sc ev = e4"
    by (simp add: attack_tables_def e0_def e1_def e2_def e3_def e4_def)
  have a0: "attackedBy (snd e0) c ALL_PIECES
            = attackedBy (snd e0) c KING OR attackedBy (snd e0) c PAWN"
    by (cases c) (simp_all add: e0_def initialize_attackedBy)
  have a1: "attackedBy (snd e1) c ALL_PIECES
            = attackedBy (snd e0) c ALL_PIECES OR attackedBy (snd e1) c KNIGHT"
    unfolding e1_def by (rule pieces_pair_all) simp
  have a2: "attackedBy (snd e2) c ALL_PIECES
            = attackedBy (snd e1) c ALL_PIECES OR attackedBy (snd e2) c BISHOP"
    unfolding e2_def by (rule pieces_pair_all) simp
  have a3: "attackedBy (snd e3) c ALL_PIECES
            = attackedBy (snd e2) c ALL_PIECES OR attackedBy (snd e3) c ROOK"
    unfolding e3_def by (rule pieces_pair_all) simp
  have a4: "attackedBy (snd e4) c ALL_PIECES
            = attackedBy (snd e3) c ALL_PIECES OR attackedBy (snd e4) c QUEEN"
    unfolding e4_def by (rule pieces_pair_all) simp
  have k: "attackedBy (snd e4) c KING = attackedBy (snd e0) c KING"
    by (simp add: e4_def e3_def e2_def e1_def pieces_pair_frame)
  have p: "attackedBy (snd e4) c PAWN = attackedBy (snd e0) c PAWN"
    by (simp add: e4_def e3_def e2_def e1_def pieces_pair_frame)
  have n: "attackedBy (snd e4) c KNIGHT = attackedBy (snd e1) c KNIGHT"
    by (simp add: e4_def e3_def e2_def pieces_pair_frame)
  have b: "attackedBy (snd e4) c BISHOP = attackedBy (snd e2) c BISHOP"
    by (simp add: e4_def e3_def pieces_pair_frame)
  have r: "attackedBy (snd e4) c ROOK = attackedBy (snd e3) c ROOK"
    by (simp add: e4_def pieces_pair_frame)
  show ?thesis
    unfolding e4 a4 a3 a2 a1 a0 k p n b r
    by (simp add: ac_simps)
qed


text \<open>
  With a white knight on f3 beside the bare kings: the king attacks d1, f1, d2, e2, f2,
  the knight eight squares, and the table of all pieces holds their union.
\<close>

theorem attackedBy_all_pieces_union_witness:
  "attackedBy (snd (attack_tables sample_globals 0 knight_sample)) WHITE KING = 0x3828
   \<and> attackedBy (snd (attack_tables sample_globals 0 knight_sample)) WHITE KNIGHT = 0x5088008850
   \<and> attackedBy (snd (attack_tables sample_globals 0 knight_sample)) WHITE ALL_PIECES
       = 0x508800B878"
proof -
  have k: "attackedBy (snd (attack_tables sample_globals 0 knight_sample)) WHITE KING = 0x3828"
    by code_simp
  have n: "attackedBy (snd (attack_tables sample_globals 0 knight_sample)) WHITE KNIGHT
           = 0x5088008850"
    by code_simp
  have p: "attackedBy (snd (attack_tables sample_globals 0 knight_sample)) WHITE PAWN = 0"
    by code_simp
  have b: "attackedBy (snd (attack_tables sample_globals 0 knight_sample)) WHITE BISHOP = 0"
    by code_simp
  have r: "attackedBy (snd (attack_tables sample_globals 0 knight_sample)) WHITE ROOK = 0"
    by code_simp
  have q: "attackedBy (snd (attack_tables sample_globals 0 knight_sample)) WHITE QUEEN = 0"
    by code_simp
  from attackedBy_all_pieces_union [of sample_globals 0 knight_sample WHITE]
  have "attackedBy (snd (attack_tables sample_globals 0 knight_sample)) WHITE ALL_PIECES
        = 0x508800B878"
    unfolding k n p b r q by simp
  with k n show ?thesis by simp
qed

subsection \<open>Double attacks\<close>

lemma bb_subset_seed: "bb_subset (k AND p) (k OR p)"
  by (simp add: bb_subset_def bit_eq_iff bit_and_iff bit_or_iff bit_not_iff)

lemma bb_subset_merge:
  "bb_subset a2 al \<Longrightarrow> bb_subset (a2 OR (al AND b)) (al OR x)"
  by (auto simp add: bb_subset_def bit_eq_iff bit_and_iff bit_or_iff bit_not_iff)

text \<open>
  Claim C10. For each colour \<open>c\<close>, \<^verbatim>\<open>attackedBy2[c]\<close> is a subset of
  \<^verbatim>\<open>attackedBy[c][ALL_PIECES]\<close> at every point after \<^verbatim>\<open>initialize<c>\<close>: the seeds are
  the intersection and the union of the king and pawn attacks
  (\<open>initialize_attackedBy2\<close>, \<open>initialize_attackedBy\<close>), and every merge adds to
  \<^verbatim>\<open>attackedBy2[c]\<close> only squares that \<^verbatim>\<open>attackedBy[c][ALL_PIECES]\<close> holds.
\<close>

theorem attackedBy2_subset_all_pieces:
  assumes "after_initialize g c ev"
  shows "bb_subset (attackedBy2 ev c) (attackedBy ev c ALL_PIECES)"
  using assms
proof (induction rule: after_initialize.induct)
  case (initialized ev)
  show ?case
    by (simp add: initialize_attackedBy initialize_attackedBy2 bb_subset_seed)
next
  case (other_initialized ev)
  have "opposite c \<noteq> c" by (cases c) simp_all
  with other_initialized.IH show ?case
    by (simp add: initialize_attackedBy initialize_attackedBy2)
next
  case (pieces_entered ev Pt Us)
  then show ?case
    by (auto simp add: pieces_entry_attackedBy pieces_entry_attackedBy2)
next
  case (piece_merged ev Pt Us s)
  show ?case
  proof (cases "Us = c")
    case True
    with piece_merged.hyps(2) piece_merged.IH show ?thesis
      by (auto simp add: pieces_merge_attackedBy pieces_merge_attackedBy2 bb_subset_merge)
  next
    case False
    with piece_merged.hyps(2) piece_merged.IH show ?thesis
      by (auto simp add: pieces_merge_attackedBy pieces_merge_attackedBy2)
  qed
qed

lemma after_initialize_fold:
  assumes "Pt \<in> {KNIGHT, BISHOP, ROOK, QUEEN}" and "after_initialize g c (snd acc)"
  shows "after_initialize g c (snd (fold (pieces_body g Us Pt) xs acc))"
  using assms(2)
proof (induction xs arbitrary: acc)
  case Nil
  then show ?case by simp
next
  case (Cons x xs)
  have "after_initialize g c (snd (pieces_body g Us Pt x acc))"
    using Cons.prems assms(1) by (simp add: after_initialize.piece_merged)
  from Cons.IH [OF this] show ?case by simp
qed

lemma after_initialize_evaluate_pieces:
  assumes "Pt \<in> {KNIGHT, BISHOP, ROOK, QUEEN}" and "after_initialize g c ev"
  shows "after_initialize g c (snd (evaluate_pieces g Us Pt ev))"
proof -
  have "after_initialize g c (snd (SCORE_ZERO, pieces_entry Us Pt ev))"
    using assms by (simp add: after_initialize.pieces_entered)
  from after_initialize_fold [OF assms(1) this] show ?thesis
    by (simp add: evaluate_pieces_def)
qed

lemma after_initialize_pieces_pair:
  assumes "Pt \<in> {KNIGHT, BISHOP, ROOK, QUEEN}" and "after_initialize g c (snd acc)"
  shows "after_initialize g c (snd (pieces_pair g Pt acc))"
  using assms by (simp add: pieces_pair_def Let_def after_initialize_evaluate_pieces)

lemma after_initialize_attack_tables:
  "after_initialize g c (snd (attack_tables g sc ev))"
proof -
  have "after_initialize g c (initialize g BLACK (initialize g WHITE ev))"
  proof (cases c)
    case WHITE
    have "after_initialize g WHITE (initialize g (opposite WHITE) (initialize g WHITE ev))"
      by (intro after_initialize.other_initialized after_initialize.initialized)
    with WHITE show ?thesis by simp
  next
    case BLACK
    then show ?thesis by (simp add: after_initialize.initialized)
  qed
  then show ?thesis
    by (simp add: attack_tables_def after_initialize_pieces_pair)
qed

text \<open>
  The state that \<^verbatim>\<open>value\<close> reaches with the white knight on f3: d2 is attacked twice.
\<close>

theorem attackedBy2_subset_all_pieces_witness:
  "after_initialize sample_globals WHITE (snd (attack_tables sample_globals 0 knight_sample))
   \<and> attackedBy2 (snd (attack_tables sample_globals 0 knight_sample)) WHITE = 0x800
   \<and> bb_subset (attackedBy2 (snd (attack_tables sample_globals 0 knight_sample)) WHITE)
        (attackedBy (snd (attack_tables sample_globals 0 knight_sample)) WHITE ALL_PIECES)"
proof -
  have a: "after_initialize sample_globals WHITE
             (snd (attack_tables sample_globals 0 knight_sample))"
    by (rule after_initialize_attack_tables)
  have d: "attackedBy2 (snd (attack_tables sample_globals 0 knight_sample)) WHITE = 0x800"
    by code_simp
  from attackedBy2_subset_all_pieces [OF a] a d show ?thesis
    by simp
qed

subsection \<open>The order of the two \<^verbatim>\<open>evaluate_pieces\<close> calls\<close>

text \<open>
  \<^verbatim>\<open>evaluate_pieces<WHITE, Pt>() - evaluate_pieces<BLACK, Pt>()\<close> leaves the order of the
  two calls to the compiler. A call for one colour writes the tables of that colour only
  and reads nothing that the call for the other colour writes, so both orders return the
  same two scores and leave the same object (\<open>pieces_pair_either_order\<close>).
\<close>

lemma pos_pieces_merge [simp]: "pos (pieces_merge g Us Pt s ev) = pos ev"
  unfolding pieces_merge_def Let_def by simp

lemma pe_pieces_merge [simp]: "pe (pieces_merge g Us Pt s ev) = pe ev"
  unfolding pieces_merge_def Let_def by simp

lemma me_pieces_merge [simp]: "me (pieces_merge g Us Pt s ev) = me ev"
  unfolding pieces_merge_def Let_def set_attackedBy_def by simp

lemma kingRing_pieces_merge [simp]: "kingRing (pieces_merge g Us Pt s ev) = kingRing ev"
  unfolding pieces_merge_def Let_def by simp

lemma mobilityArea_pieces_merge [simp]: "mobilityArea (pieces_merge g Us Pt s ev) = mobilityArea ev"
  unfolding pieces_merge_def Let_def by simp

lemma piece_attacks_pieces_merge [simp]:
  "piece_attacks g Us Pt s (pieces_merge g Us' Pt' s' ev) = piece_attacks g Us Pt s ev"
  by (simp add: piece_attacks_def)

lemma kingAttackersCount_pieces_merge:
  "kingAttackersCount (pieces_merge g Us Pt s ev) c =
     (if c = Us \<and> piece_attacks g Us Pt s ev AND kingRing ev (opposite Us) \<noteq> 0
      then kingAttackersCount ev Us + 1 else kingAttackersCount ev c)"
  unfolding pieces_merge_def Let_def by simp

lemma kingAttackersWeight_pieces_merge:
  "kingAttackersWeight (pieces_merge g Us Pt s ev) c =
     (if c = Us \<and> piece_attacks g Us Pt s ev AND kingRing ev (opposite Us) \<noteq> 0
      then kingAttackersWeight ev Us + tab (KingAttackWeights (variant (pos ev))) (pt_index Pt)
      else kingAttackersWeight ev c)"
  unfolding pieces_merge_def Let_def set_attackedBy_def by simp

lemma kingAdjacentZoneAttacksCount_pieces_merge:
  assumes "Pt \<in> {KNIGHT, BISHOP, ROOK, QUEEN}"
  shows "kingAdjacentZoneAttacksCount (pieces_merge g Us Pt s ev) c =
     (if c = Us \<and> piece_attacks g Us Pt s ev AND kingRing ev (opposite Us) \<noteq> 0
      then kingAdjacentZoneAttacksCount ev Us
           + int (popcount (piece_attacks g Us Pt s ev AND attackedBy ev (opposite Us) KING))
      else kingAdjacentZoneAttacksCount ev c)"
proof -
  have "opposite Us \<noteq> Us" by (cases Us) simp_all
  then show ?thesis
    using assms unfolding pieces_merge_def Let_def set_attackedBy_def by auto
qed

lemma mobility_pieces_merge:
  "mobility (pieces_merge g Us Pt s ev) c =
     (if c = Us
      then mobility ev Us
           + tab2 (MobilityBonus (variant (pos ev))) (pt_index Pt - 2)
               (popcount (piece_attacks g Us Pt s ev AND mobilityArea ev Us))
      else mobility ev c)"
  unfolding pieces_merge_def Let_def set_attackedBy_def by simp



lemma more_pieces_merge [simp]: "evaluation.more (pieces_merge g Us Pt s ev) = evaluation.more ev"
  unfolding pieces_merge_def Let_def set_attackedBy_def by simp

lemma commute_kingAdjacentZoneAttacksCount:
  assumes "Pt \<in> {KNIGHT, BISHOP, ROOK, QUEEN}" and "Pt' \<in> {KNIGHT, BISHOP, ROOK, QUEEN}"
  shows "kingAdjacentZoneAttacksCount (pieces_merge g WHITE Pt s (pieces_merge g BLACK Pt' s' ev))
        = kingAdjacentZoneAttacksCount (pieces_merge g BLACK Pt' s' (pieces_merge g WHITE Pt s ev))"
proof -
  have k: "Pt \<noteq> KING" "Pt' \<noteq> KING" "Pt \<noteq> ALL_PIECES" "Pt' \<noteq> ALL_PIECES"
    using assms by auto
  have a: "attackedBy (pieces_merge g BLACK Pt' s' ev) c KING = attackedBy ev c KING" for c
    using assms(2) k by (simp add: pieces_merge_attackedBy)
  have b: "attackedBy (pieces_merge g WHITE Pt s ev) c KING = attackedBy ev c KING" for c
    using assms(1) k by (simp add: pieces_merge_attackedBy)
  show ?thesis
    by (intro ext)
      (simp add: kingAdjacentZoneAttacksCount_pieces_merge [OF assms(1)]
        kingAdjacentZoneAttacksCount_pieces_merge [OF assms(2)] a b)
qed


lemma pieces_merge_commute:
  assumes "Pt \<in> {KNIGHT, BISHOP, ROOK, QUEEN}" and "Pt' \<in> {KNIGHT, BISHOP, ROOK, QUEEN}"
  shows "pieces_merge g WHITE Pt s (pieces_merge g BLACK Pt' s' ev)
         = pieces_merge g BLACK Pt' s' (pieces_merge g WHITE Pt s ev)"
proof (rule evaluation.equality)
  show "attackedBy (pieces_merge g WHITE Pt s (pieces_merge g BLACK Pt' s' ev))
        = attackedBy (pieces_merge g BLACK Pt' s' (pieces_merge g WHITE Pt s ev))"
    using assms by (intro ext) (simp add: pieces_merge_attackedBy)
  show "attackedBy2 (pieces_merge g WHITE Pt s (pieces_merge g BLACK Pt' s' ev))
        = attackedBy2 (pieces_merge g BLACK Pt' s' (pieces_merge g WHITE Pt s ev))"
    using assms by (intro ext) (simp add: pieces_merge_attackedBy2 pieces_merge_attackedBy)
  show "kingAttackersCount (pieces_merge g WHITE Pt s (pieces_merge g BLACK Pt' s' ev))
        = kingAttackersCount (pieces_merge g BLACK Pt' s' (pieces_merge g WHITE Pt s ev))"
    by (intro ext) (simp add: kingAttackersCount_pieces_merge)
  show "kingAttackersWeight (pieces_merge g WHITE Pt s (pieces_merge g BLACK Pt' s' ev))
        = kingAttackersWeight (pieces_merge g BLACK Pt' s' (pieces_merge g WHITE Pt s ev))"
    by (intro ext) (simp add: kingAttackersWeight_pieces_merge)
  show "kingAdjacentZoneAttacksCount (pieces_merge g WHITE Pt s (pieces_merge g BLACK Pt' s' ev))
        = kingAdjacentZoneAttacksCount (pieces_merge g BLACK Pt' s' (pieces_merge g WHITE Pt s ev))"
    using assms by (rule commute_kingAdjacentZoneAttacksCount)
  show "mobility (pieces_merge g WHITE Pt s (pieces_merge g BLACK Pt' s' ev))
        = mobility (pieces_merge g BLACK Pt' s' (pieces_merge g WHITE Pt s ev))"
    by (intro ext) (simp add: mobility_pieces_merge)
qed simp_all


lemma fields_pieces_entry [simp]:
  "pos (pieces_entry Us Pt ev) = pos ev"
  "pe (pieces_entry Us Pt ev) = pe ev"
  "me (pieces_entry Us Pt ev) = me ev"
  "kingRing (pieces_entry Us Pt ev) = kingRing ev"
  "mobilityArea (pieces_entry Us Pt ev) = mobilityArea ev"
  "mobility (pieces_entry Us Pt ev) = mobility ev"
  "kingAttackersCount (pieces_entry Us Pt ev) = kingAttackersCount ev"
  "kingAttackersWeight (pieces_entry Us Pt ev) = kingAttackersWeight ev"
  "kingAdjacentZoneAttacksCount (pieces_entry Us Pt ev) = kingAdjacentZoneAttacksCount ev"
  "evaluation.more (pieces_entry Us Pt ev) = evaluation.more ev"
  "piece_attacks g c pt s (pieces_entry Us Pt ev) = piece_attacks g c pt s ev"
  unfolding pieces_entry_def Let_def set_attackedBy_def piece_attacks_def by simp_all

lemma pieces_entry_merge_commute:
  assumes "Pt \<in> {KNIGHT, BISHOP, ROOK, QUEEN}" and "Pt' \<in> {KNIGHT, BISHOP, ROOK, QUEEN}"
    and "c \<noteq> c'"
  shows "pieces_entry c Pt (pieces_merge g c' Pt' s ev)
         = pieces_merge g c' Pt' s (pieces_entry c Pt ev)"
proof (rule evaluation.equality)
  have k: "Pt \<noteq> KING" "Pt' \<noteq> KING" "Pt \<noteq> ALL_PIECES" "Pt' \<noteq> ALL_PIECES"
    using assms by auto
  have o: "opposite c' = c" using assms(3) by (cases c; cases c') simp_all
  show "attackedBy (pieces_entry c Pt (pieces_merge g c' Pt' s ev))
        = attackedBy (pieces_merge g c' Pt' s (pieces_entry c Pt ev))"
    using assms(3)
    by (intro ext)
      (auto simp add: pieces_merge_attackedBy [OF assms(2)] pieces_entry_attackedBy [OF assms(1)]
        pieces_merge_attackedBy pieces_entry_attackedBy)
  show "attackedBy2 (pieces_entry c Pt (pieces_merge g c' Pt' s ev))
        = attackedBy2 (pieces_merge g c' Pt' s (pieces_entry c Pt ev))"
    using assms(3)
    by (intro ext)
      (simp add: pieces_merge_attackedBy2 pieces_entry_attackedBy2
        pieces_entry_attackedBy [OF assms(1)])
  show "kingAttackersCount (pieces_entry c Pt (pieces_merge g c' Pt' s ev))
        = kingAttackersCount (pieces_merge g c' Pt' s (pieces_entry c Pt ev))"
    by (intro ext) (simp add: kingAttackersCount_pieces_merge)
  show "kingAttackersWeight (pieces_entry c Pt (pieces_merge g c' Pt' s ev))
        = kingAttackersWeight (pieces_merge g c' Pt' s (pieces_entry c Pt ev))"
    by (intro ext) (simp add: kingAttackersWeight_pieces_merge)
  show "kingAdjacentZoneAttacksCount (pieces_entry c Pt (pieces_merge g c' Pt' s ev))
        = kingAdjacentZoneAttacksCount (pieces_merge g c' Pt' s (pieces_entry c Pt ev))"
    using k
    by (intro ext)
      (simp add: kingAdjacentZoneAttacksCount_pieces_merge [OF assms(2)]
        pieces_entry_attackedBy [OF assms(1)] o)
  show "mobility (pieces_entry c Pt (pieces_merge g c' Pt' s ev))
        = mobility (pieces_merge g c' Pt' s (pieces_entry c Pt ev))"
    by (intro ext) (simp add: mobility_pieces_merge)
qed simp_all

lemma pieces_entry_commute:
  assumes "Pt \<in> {KNIGHT, BISHOP, ROOK, QUEEN}" and "Pt' \<in> {KNIGHT, BISHOP, ROOK, QUEEN}"
  shows "pieces_entry WHITE Pt (pieces_entry BLACK Pt' ev)
         = pieces_entry BLACK Pt' (pieces_entry WHITE Pt ev)"
proof (rule evaluation.equality)
  show "attackedBy (pieces_entry WHITE Pt (pieces_entry BLACK Pt' ev))
        = attackedBy (pieces_entry BLACK Pt' (pieces_entry WHITE Pt ev))"
    by (intro ext)
      (auto simp add: pieces_entry_attackedBy [OF assms(1)] pieces_entry_attackedBy [OF assms(2)])
qed (simp_all add: pieces_entry_attackedBy2)

lemma fold_commute_one:
  assumes "\<And>y e. f (h y e) = h y (f e)"
  shows "f (fold h ys e) = fold h ys (f e)"
  by (induction ys arbitrary: e) (simp_all add: assms)

lemma fold_commute_two:
  assumes "\<And>x y e. f x (h y e) = h y (f x e)"
  shows "fold f xs (fold h ys e) = fold h ys (fold f xs e)"
proof (induction xs arbitrary: e)
  case Nil
  show ?case by simp
next
  case (Cons x xs)
  have "f x (fold h ys e) = fold h ys (f x e)"
    by (rule fold_commute_one) (rule assms)
  with Cons show ?case by simp
qed

lemma snd_fold_pieces_body:
  "snd (fold (pieces_body g Us Pt) xs acc) = fold (pieces_merge g Us Pt) xs (snd acc)"
  by (induction xs arbitrary: acc) simp_all

lemma snd_evaluate_pieces:
  "snd (evaluate_pieces g Us Pt ev)
   = fold (pieces_merge g Us Pt) (squares (pos ev) Us Pt) (pieces_entry Us Pt ev)"
  by (simp add: evaluate_pieces_def snd_fold_pieces_body)

lemma pos_fold_pieces_merge [simp]: "pos (fold (pieces_merge g Us Pt) xs ev) = pos ev"
  by (induction xs arbitrary: ev) simp_all

lemma evaluate_pieces_state_commute:
  assumes "Pt \<in> {KNIGHT, BISHOP, ROOK, QUEEN}"
  shows "snd (evaluate_pieces g BLACK Pt (snd (evaluate_pieces g WHITE Pt ev)))
         = snd (evaluate_pieces g WHITE Pt (snd (evaluate_pieces g BLACK Pt ev)))"
proof -
  define xs where "xs = squares (pos ev) WHITE Pt"
  define ys where "ys = squares (pos ev) BLACK Pt"
  have wb: "WHITE \<noteq> BLACK" and bw: "BLACK \<noteq> WHITE" by simp_all
  have "fold (pieces_merge g BLACK Pt) ys
          (pieces_entry BLACK Pt (fold (pieces_merge g WHITE Pt) xs (pieces_entry WHITE Pt ev)))
        = fold (pieces_merge g BLACK Pt) ys
            (fold (pieces_merge g WHITE Pt) xs (pieces_entry BLACK Pt (pieces_entry WHITE Pt ev)))"
    by (simp add: fold_commute_one [where f = "pieces_entry BLACK Pt"]
        pieces_entry_merge_commute [OF assms assms bw])
  also have "\<dots> = fold (pieces_merge g WHITE Pt) xs
            (fold (pieces_merge g BLACK Pt) ys (pieces_entry BLACK Pt (pieces_entry WHITE Pt ev)))"
    by (rule fold_commute_two [symmetric]) (rule pieces_merge_commute [OF assms assms])
  also have "\<dots> = fold (pieces_merge g WHITE Pt) xs
            (fold (pieces_merge g BLACK Pt) ys (pieces_entry WHITE Pt (pieces_entry BLACK Pt ev)))"
    by (simp add: pieces_entry_commute [OF assms assms])
  also have "\<dots> = fold (pieces_merge g WHITE Pt) xs
            (pieces_entry WHITE Pt (fold (pieces_merge g BLACK Pt) ys (pieces_entry BLACK Pt ev)))"
    by (simp add: fold_commute_one [where f = "pieces_entry WHITE Pt"]
        pieces_entry_merge_commute [OF assms assms wb])
  finally show ?thesis
    by (simp add: snd_evaluate_pieces xs_def ys_def)
qed


lemma piece_score_cong:
  assumes "pos ev' = pos ev" and "pe ev' = pe ev"
    and "mobilityArea ev' Us = mobilityArea ev Us"
    and "attackedBy ev' Us PAWN = attackedBy ev Us PAWN"
  shows "piece_score g Us Pt s ev' = piece_score g Us Pt s ev"
  unfolding piece_score_def minor_score_def rook_score_def piece_attacks_def
  by (simp only: assms)

lemma pieces_body_pair:
  "pieces_body g Us Pt s (sc, ev)
   = (sc + piece_score g Us Pt s ev, pieces_merge g Us Pt s ev)"
  by (simp add: pieces_body_def)

lemma fst_fold_pieces_body_cong:
  assumes "Pt \<in> {KNIGHT, BISHOP, ROOK, QUEEN}"
    and "pos ev' = pos ev" and "pe ev' = pe ev"
    and "mobilityArea ev' Us = mobilityArea ev Us"
    and "attackedBy ev' Us PAWN = attackedBy ev Us PAWN"
  shows "fst (fold (pieces_body g Us Pt) xs (sc, ev')) = fst (fold (pieces_body g Us Pt) xs (sc, ev))"
  using assms(2-)
proof (induction xs arbitrary: sc ev ev')
  case Nil
  show ?case by simp
next
  case (Cons x xs)
  have p: "Pt \<noteq> PAWN" using assms(1) by auto
  have s: "piece_score g Us Pt x ev' = piece_score g Us Pt x ev"
    using Cons.prems by (rule piece_score_cong)
  have "fst (fold (pieces_body g Us Pt) xs
               (sc + piece_score g Us Pt x ev, pieces_merge g Us Pt x ev'))
        = fst (fold (pieces_body g Us Pt) xs
               (sc + piece_score g Us Pt x ev, pieces_merge g Us Pt x ev))"
    using Cons.prems p
    by (intro Cons.IH) (simp_all add: pieces_merge_attackedBy [OF assms(1)])
  then show ?case
    by (simp add: pieces_body_pair s)
qed

lemma pe_fold_pieces_merge [simp]: "pe (fold (pieces_merge g Us Pt) xs ev) = pe ev"
  by (induction xs arbitrary: ev) simp_all

lemma mobilityArea_fold_pieces_merge [simp]:
  "mobilityArea (fold (pieces_merge g Us Pt) xs ev) = mobilityArea ev"
  by (induction xs arbitrary: ev) simp_all

lemma evaluate_pieces_score_independent:
  assumes "Pt \<in> {KNIGHT, BISHOP, ROOK, QUEEN}" and "Us' \<noteq> Us"
  shows "fst (evaluate_pieces g Us Pt (snd (evaluate_pieces g Us' Pt ev)))
         = fst (evaluate_pieces g Us Pt ev)"
proof -
  define ev' where "ev' = snd (evaluate_pieces g Us' Pt ev)"
  have p: "Pt \<noteq> PAWN" using assms(1) by auto
  have pos: "pos ev' = pos ev" and pe: "pe ev' = pe ev"
    and ma: "mobilityArea ev' = mobilityArea ev"
    by (simp_all add: ev'_def snd_evaluate_pieces)
  have pw: "attackedBy ev' Us PAWN = attackedBy ev Us PAWN"
    unfolding ev'_def using assms by (intro evaluate_pieces_frame) auto
  have "fst (fold (pieces_body g Us Pt) (squares (pos ev) Us Pt)
               (SCORE_ZERO, pieces_entry Us Pt ev'))
        = fst (fold (pieces_body g Us Pt) (squares (pos ev) Us Pt)
               (SCORE_ZERO, pieces_entry Us Pt ev))"
    using p by (intro fst_fold_pieces_body_cong [OF assms(1)])
      (simp_all add: pos pe ma pw pieces_entry_attackedBy [OF assms(1)])
  moreover have "evaluate_pieces g Us Pt ev'
        = fold (pieces_body g Us Pt) (squares (pos ev) Us Pt) (SCORE_ZERO, pieces_entry Us Pt ev')"
    by (simp add: evaluate_pieces_def pos)
  ultimately have "fst (evaluate_pieces g Us Pt ev') = fst (evaluate_pieces g Us Pt ev)"
    by (simp add: evaluate_pieces_def)
  then show ?thesis
    by (simp only: ev'_def)
qed

lemma pieces_pair_either_order:
  assumes "Pt \<in> {KNIGHT, BISHOP, ROOK, QUEEN}"
  shows "pieces_pair g Pt acc =
    (let b = evaluate_pieces g BLACK Pt (snd acc);
         w = evaluate_pieces g WHITE Pt (snd b)
     in (fst acc + (fst w - fst b), snd w))"
proof -
  have 1: "fst (evaluate_pieces g BLACK Pt (snd (evaluate_pieces g WHITE Pt (snd acc))))
           = fst (evaluate_pieces g BLACK Pt (snd acc))"
    by (rule evaluate_pieces_score_independent [OF assms]) simp
  have 2: "fst (evaluate_pieces g WHITE Pt (snd (evaluate_pieces g BLACK Pt (snd acc))))
           = fst (evaluate_pieces g WHITE Pt (snd acc))"
    by (rule evaluate_pieces_score_independent [OF assms]) simp
  show ?thesis
    by (simp add: pieces_pair_def Let_def 1 2 evaluate_pieces_state_commute [OF assms])
qed

text \<open>
  The attacker counts are never negative in the state in which \<^verbatim>\<open>value\<close> calls
  \<^verbatim>\<open>evaluate_king\<close>: \<^verbatim>\<open>initialize\<close> sets them to a population count or to 0, and
  \<^verbatim>\<open>evaluate_pieces\<close> only increments them.
\<close>

lemma kingAttackersCount_initialize:
  "kingAttackersCount (initialize g Us ev) c =
     (if c = opposite Us
      then (if king_safety_used g Us ev
            then int (popcount (king_attacks Us ev AND pawn_attacks (pe ev) (opposite Us)))
            else 0)
      else kingAttackersCount ev c)"
  unfolding initialize_def Let_def
  by (auto simp add: king_safety_used_def king_attacks_def)

lemma kingAttackersCount_fold_nonneg:
  "0 \<le> kingAttackersCount ev c
   \<Longrightarrow> 0 \<le> kingAttackersCount (fold (pieces_merge g Us Pt) xs ev) c"
proof (induction xs arbitrary: ev)
  case Nil
  then show ?case by simp
next
  case (Cons x xs)
  from Cons.prems have "0 \<le> kingAttackersCount (pieces_merge g Us Pt x ev) c"
    by (auto simp add: kingAttackersCount_pieces_merge)
  from Cons.IH [OF this] show ?case by simp
qed

lemma kingAttackersCount_evaluate_pieces_nonneg:
  "0 \<le> kingAttackersCount ev c
   \<Longrightarrow> 0 \<le> kingAttackersCount (snd (evaluate_pieces g Us Pt ev)) c"
  by (simp add: snd_evaluate_pieces kingAttackersCount_fold_nonneg)

lemma kingAttackersCount_nonneg:
  "0 \<le> kingAttackersCount (snd (attack_tables g sc ev)) c"
proof -
  have "0 \<le> kingAttackersCount (initialize g BLACK (initialize g WHITE ev)) c"
    by (cases c) (simp_all add: kingAttackersCount_initialize)
  then show ?thesis
    by (simp add: attack_tables_def pieces_pair_def Let_def
        kingAttackersCount_evaluate_pieces_nonneg)
qed

subsection \<open>King safety\<close>

lemma Camp_WHITE: "Camp WHITE = mask 40"
  by (simp add: Camp_def file_rank_defs mask_eq_decr_exp)

lemma Camp_BLACK: "Camp BLACK = NOT (mask 24)"
  by (simp add: Camp_def file_rank_defs mask_eq_decr_exp)

lemma KingFlank_cases:
  "KingFlank (file_of s) = QueenSide \<or> KingFlank (file_of s) = CenterFiles
   \<or> KingFlank (file_of s) = KingSide"
proof -
  have "file_of s < 8" by (simp add: file_of_def)
  then have "file_of s \<in> {0, 1, 2, 3, 4, 5, 6, 7}" by auto
  then show ?thesis
    by (auto simp add: KingFlank_def)
qed

lemma flank_push_disjoint:
  "push_bit 4 QueenSide AND QueenSide = 0"
  "push_bit 4 CenterFiles AND CenterFiles = 0"
  "push_bit 4 KingSide AND KingSide = 0"
  by (simp_all add: QueenSide_def CenterFiles_def KingSide_def file_rank_defs)

lemma flank_drop_disjoint:
  "drop_bit 4 QueenSide AND QueenSide = 0"
  "drop_bit 4 CenterFiles AND CenterFiles = 0"
  "drop_bit 4 KingSide AND KingSide = 0"
  by (simp_all add: QueenSide_def CenterFiles_def KingSide_def file_rank_defs)

lemma push_bit_masked_disjoint:
  fixes x F C :: bitboard
  assumes "push_bit k F AND F = 0"
  shows "push_bit k (x AND F AND C) AND (x AND F AND C) = 0"
proof -
  have "push_bit k (x AND F AND C) AND (x AND F AND C)
        = (push_bit k F AND F) AND (push_bit k x AND x AND push_bit k C AND C)"
    by (simp add: push_bit_and and.assoc and.left_commute and.commute)
  then show ?thesis by (simp add: assms)
qed

lemma drop_bit_masked_disjoint:
  fixes x F C :: bitboard
  assumes "drop_bit k F AND F = 0"
  shows "drop_bit k (x AND F AND C) AND (x AND F AND C) = 0"
proof -
  have "drop_bit k (x AND F AND C) AND (x AND F AND C)
        = (drop_bit k F AND F) AND (drop_bit k x AND x AND drop_bit k C AND C)"
    by (simp add: drop_bit_and and.assoc and.left_commute and.commute)
  then show ?thesis by (simp add: assms)
qed

text \<open>
  Claim C9. In \<^verbatim>\<open>evaluate_king<Us>\<close> the bitboard \<open>b\<close> of enemy-attacked squares in the
  king's flank and our camp is disjoint from its shift by four bits towards the enemy
  (\<^verbatim>\<open>b << 4\<close> for White, \<^verbatim>\<open>b >> 4\<close> for Black), the shift keeps the number of squares,
  and so both assertions of lines 1121 and 1122 hold, whatever the attack tables and the
  king square are.
\<close>

theorem king_tropism_assertions_hold:
  "tropism_shift Us (tropism_flank Us ev) AND tropism_flank Us ev = 0
   \<and> popcount (tropism_shift Us (tropism_flank Us ev)) = popcount (tropism_flank Us ev)
   \<and> tropism_assertions Us ev"
proof -
  define x where "x = attackedBy ev (opposite Us) ALL_PIECES"
  define F where "F = KingFlank (file_of (square_KING (pos ev) Us))"
  have b: "tropism_flank Us ev = x AND F AND Camp Us"
    by (simp add: tropism_flank_def x_def F_def)
  have F: "F = QueenSide \<or> F = CenterFiles \<or> F = KingSide"
    unfolding F_def by (rule KingFlank_cases)
  have disjoint: "tropism_shift Us (tropism_flank Us ev) AND tropism_flank Us ev = 0"
  proof (cases Us)
    case WHITE
    from F have "push_bit 4 F AND F = 0" by (auto simp add: flank_push_disjoint)
    then have "push_bit 4 (x AND F AND Camp Us) AND (x AND F AND Camp Us) = 0"
      by (rule push_bit_masked_disjoint)
    moreover have "tropism_shift Us y = push_bit 4 y" for y
      by (simp add: tropism_shift_def WHITE)
    ultimately show ?thesis
      unfolding b by (simp only:)
  next
    case BLACK
    from F have "drop_bit 4 F AND F = 0" by (auto simp add: flank_drop_disjoint)
    then have "drop_bit 4 (x AND F AND Camp Us) AND (x AND F AND Camp Us) = 0"
      by (rule drop_bit_masked_disjoint)
    moreover have "tropism_shift Us y = drop_bit 4 y" for y
      by (simp add: tropism_shift_def BLACK)
    ultimately show ?thesis
      unfolding b by (simp only:)
  qed
  have count: "popcount (tropism_shift Us (tropism_flank Us ev)) = popcount (tropism_flank Us ev)"
  proof (cases Us)
    case WHITE
    have "n + 4 < 64" if "bit (tropism_flank Us ev) n" for n
    proof -
      from that have "bit (x AND F AND Camp Us) n" by (simp only: b)
      then have "bit (Camp WHITE) n" by (simp add: WHITE bit_and_iff)
      then show ?thesis by (simp add: Camp_WHITE bit_mask_iff)
    qed
    then show ?thesis
      by (simp add: tropism_shift_def WHITE popcount_push_bit)
  next
    case BLACK
    have "4 \<le> n" if "bit (tropism_flank Us ev) n" for n
    proof -
      from that have "bit (x AND F AND Camp Us) n" by (simp only: b)
      then have "bit (Camp BLACK) n" by (simp add: BLACK bit_and_iff)
      then show ?thesis by (auto simp add: Camp_BLACK bit_not_iff bit_mask_iff)
    qed
    then show ?thesis
      by (simp add: tropism_shift_def BLACK popcount_drop_bit)
  qed
  from disjoint count show ?thesis
    by (simp add: tropism_assertions_def Let_def)
qed

text \<open>
  Black's king on e8 with the white knight on f3: the knight attacks d4 and e5 in Black's
  camp on the centre files; shifted they are h3 and a5.
\<close>

theorem king_tropism_assertions_hold_witness:
  "tropism_flank BLACK (snd (attack_tables sample_globals 0 knight_sample)) = 0x1008000000
   \<and> tropism_shift BLACK (tropism_flank BLACK (snd (attack_tables sample_globals 0 knight_sample)))
       = 0x100800000
   \<and> tropism_assertions BLACK (snd (attack_tables sample_globals 0 knight_sample))"
proof -
  have f: "tropism_flank BLACK (snd (attack_tables sample_globals 0 knight_sample))
           = 0x1008000000"
    by code_simp
  have s: "tropism_shift BLACK 0x1008000000 = 0x100800000"
    by (simp add: tropism_shift_def)
  from king_tropism_assertions_hold [of BLACK "snd (attack_tables sample_globals 0 knight_sample)"]
    f s show ?thesis
    by simp
qed

text \<open>
  Claim C7, as amended. In \<^verbatim>\<open>evaluate_king<Us>\<close> the main king-danger block runs exactly
  when \<^verbatim>\<open>kingAttackersCount[Them] > 1 - (number of enemy queens)\<close> and the position is
  not a Horde position in which \<open>Us\<close> has no king (\<^verbatim>\<open>ksq == SQ_NONE\<close>). The count
  condition asks for at least two attackers when the enemy has no queen, for at least one
  when the enemy has exactly one queen, and for none when the enemy has two or more
  queens (the count is never negative, \<open>kingAttackersCount_nonneg\<close>). When the block
  does not run, only shelter, tropism and the pawnless-flank penalty contribute to the
  returned score.
\<close>

theorem king_danger_activation:
  "(king_danger_active Us ev \<longleftrightarrow>
      kingAttackersCount ev (opposite Us) > 1 - count (pos ev) (opposite Us) QUEEN
      \<and> \<not> (variant (pos ev) = HORDE_VARIANT \<and> square_KING (pos ev) Us = SQ_NONE))
   \<and> (count (pos ev) (opposite Us) QUEEN = 0 \<longrightarrow>
        (kingAttackersCount ev (opposite Us) > 1 - count (pos ev) (opposite Us) QUEEN
         \<longleftrightarrow> 2 \<le> kingAttackersCount ev (opposite Us)))
   \<and> (count (pos ev) (opposite Us) QUEEN = 1 \<longrightarrow>
        (kingAttackersCount ev (opposite Us) > 1 - count (pos ev) (opposite Us) QUEEN
         \<longleftrightarrow> 1 \<le> kingAttackersCount ev (opposite Us)))
   \<and> (2 \<le> count (pos ev) (opposite Us) QUEEN \<and> 0 \<le> kingAttackersCount ev (opposite Us) \<longrightarrow>
        kingAttackersCount ev (opposite Us) > 1 - count (pos ev) (opposite Us) QUEEN)
   \<and> (king_danger_active Us ev \<longrightarrow>
        evaluate_king g Us ev =
          king_tropism Us
            (king_danger_block g Us (king_safety (pe ev) Us (square_KING (pos ev) Us)) ev) ev)
   \<and> (\<not> king_danger_active Us ev \<longrightarrow>
        evaluate_king g Us ev =
          (let b = tropism_flank Us ev;
               close = tropism_shift Us b
                       OR (b AND attackedBy2 ev (opposite Us) AND NOT (attackedBy ev Us PAWN));
               shelter = king_safety (pe ev) Us (square_KING (pos ev) Us);
               tropism = score_mul (CloseEnemies (variant (pos ev))) (int (popcount close))
           in if pieces_pt (pos ev) PAWN AND KingFlank (file_of (square_KING (pos ev) Us)) = 0
              then shelter - tropism - PawnlessFlank
              else shelter - tropism))"
proof -
  have act: "king_danger_active Us ev \<longleftrightarrow>
      kingAttackersCount ev (opposite Us) > 1 - count (pos ev) (opposite Us) QUEEN
      \<and> \<not> (variant (pos ev) = HORDE_VARIANT \<and> square_KING (pos ev) Us = SQ_NONE)"
    by (simp add: king_danger_active_def is_horde_def)
  have on: "king_danger_active Us ev \<Longrightarrow>
        evaluate_king g Us ev =
          king_tropism Us
            (king_danger_block g Us (king_safety (pe ev) Us (square_KING (pos ev) Us)) ev) ev"
    by (simp add: evaluate_king_def Let_def)
  have off: "\<not> king_danger_active Us ev \<Longrightarrow>
        evaluate_king g Us ev =
          (let b = tropism_flank Us ev;
               close = tropism_shift Us b
                       OR (b AND attackedBy2 ev (opposite Us) AND NOT (attackedBy ev Us PAWN));
               shelter = king_safety (pe ev) Us (square_KING (pos ev) Us);
               tropism = score_mul (CloseEnemies (variant (pos ev))) (int (popcount close))
           in if pieces_pt (pos ev) PAWN AND KingFlank (file_of (square_KING (pos ev) Us)) = 0
              then shelter - tropism - PawnlessFlank
              else shelter - tropism)"
    by (simp add: evaluate_king_def king_tropism_def Let_def)
  from act on off show ?thesis
    by (simp only:) auto
qed

text \<open>
  Bare kings: with two black queens counted and no attacker the block runs and takes 2
  from the endgame score; without a black queen it does not run.
\<close>

theorem king_danger_activation_witness:
  "king_danger_active WHITE two_queens_sample
   \<and> count (pos two_queens_sample) BLACK QUEEN = 2
   \<and> kingAttackersCount two_queens_sample BLACK = 0
   \<and> evaluate_king sample_globals WHITE two_queens_sample = make_score (- 20) (- 82)
   \<and> \<not> king_danger_active WHITE blank
   \<and> evaluate_king sample_globals WHITE blank = make_score (- 20) (- 80)"
proof -
  have q: "count (pos two_queens_sample) (opposite WHITE) QUEEN = 2"
    by (simp add: two_queens_sample_def sample_defs)
  have k: "kingAttackersCount two_queens_sample (opposite WHITE) = 0"
    by (simp add: two_queens_sample_def sample_defs)
  have v: "variant (pos two_queens_sample) = CHESS_VARIANT"
    by (simp add: two_queens_sample_def sample_defs)
  have a: "king_danger_active WHITE two_queens_sample"
    using king_danger_activation [of WHITE two_queens_sample sample_globals] q k v by simp
  have e: "evaluate_king sample_globals WHITE two_queens_sample = make_score (- 20) (- 82)"
    by code_simp
  have q0: "count (pos blank) (opposite WHITE) QUEEN = 0"
    by (simp add: sample_defs)
  have k0: "kingAttackersCount blank (opposite WHITE) = 0"
    by (simp add: sample_defs)
  have n: "\<not> king_danger_active WHITE blank"
    using king_danger_activation [of WHITE blank sample_globals] q0 k0 by simp
  have e0: "evaluate_king sample_globals WHITE blank = make_score (- 20) (- 80)"
    by code_simp
  from a q k e n e0 show ?thesis by simp
qed

text \<open>
  Claim C7 as stated fails twice. In the Horde position without a white king the count
  condition holds (0 attackers, two black queens) and the block does not run; and with
  the bare kings and two black queens the block runs although no piece attacks, so "at
  least one attacker when the enemy has a queen" is not what the condition asks.
\<close>

theorem king_danger_activation_counterexample:
  "kingAttackersCount horde_sample BLACK > 1 - count (pos horde_sample) BLACK QUEEN
   \<and> \<not> king_danger_active WHITE horde_sample
   \<and> 0 < count (pos two_queens_sample) BLACK QUEEN
   \<and> \<not> 1 \<le> kingAttackersCount two_queens_sample BLACK
   \<and> king_danger_active WHITE two_queens_sample"
  by (simp add: king_danger_active_def horde_sample_def two_queens_sample_def sample_defs
      is_horde_def SQ_NONE_def)

subsection \<open>Passed pawns\<close>

text \<open>
  Inside a row \<open>Passed_at\<close> is the plain table lookup; one element before a row it reads
  a zero: the padding of the row that precedes it in memory.
\<close>

lemma Passed_at_in_row:
  assumes "0 \<le> r" "r < 8" "i < 2"
  shows "Passed_at v i r = tab2 (Passed v) i (nat r)"
proof -
  from assms have "r \<in> {0, 1, 2, 3, 4, 5, 6, 7}" by auto
  moreover from assms have "i \<in> {0, 1}" by auto
  ultimately show ?thesis
    by (cases v) (auto simp add: Passed_at_def Passed_memory_def Passed_row_def Passed_def
       variant_index_def RANK_NB_def tab2_def tab_def Let_def nth_append)
qed

lemma Passed_at_first_rank:
  assumes "i < 2"
  shows "Passed_at v i (- 1) = 0"
proof -
  from assms have "i \<in> {0, 1}" by auto
  then show ?thesis
    by (cases v) (auto simp add: Passed_at_def Passed_memory_def Passed_row_def Passed_def
       variant_index_def RANK_NB_def Let_def nth_append)
qed

text \<open>
  Claim C8. In \<^verbatim>\<open>evaluate_passed_pawns<Us>\<close>, for the passed pawn on \<open>s\<close>, the middlegame
  and the endgame bonus are both halved (C++ integer division by 2) exactly when
  \<^verbatim>\<open>pawn_passed\<close> fails for the square one step ahead or a pawn of either colour stands
  on the squares of its file in front of it; otherwise they are unchanged. The pair then
  enters the score with the file bonus.
\<close>

theorem passed_pawn_scale_down:
  "passed_bonus_scaled Us s ev =
     (if \<not> pawn_passed (pos ev) Us (sq_plus s (pawn_push Us))
         \<or> pieces_pt (pos ev) PAWN AND forward_file_bb Us s \<noteq> 0
      then (fst (passed_bonus Us s ev) sdiv 2, snd (passed_bonus Us s ev) sdiv 2)
      else passed_bonus Us s ev)
   \<and> passed_body Us ev s score =
       score
       - score_mul HinderPassedPawn
           (int (popcount (forward_file_bb Us s
                           AND (attackedBy ev (opposite Us) ALL_PIECES
                                OR pieces_c (pos ev) (opposite Us)))))
       + (make_score (fst (passed_bonus_scaled Us s ev)) (snd (passed_bonus_scaled Us s ev))
          + tab PassedFile (file_of s))"
  by (simp add: passed_bonus_scaled_def passed_scale_down_def passed_body_def Let_def)

text \<open>
  The white pawn on e5 with the black pawn on e6 in front of it: the bonus (73, 37) is
  halved to (36, 18).
\<close>

theorem passed_pawn_scale_down_witness:
  "pawn_passed (pos passer_sample) WHITE (sq_plus 36 (pawn_push WHITE))
   \<and> pieces_pt (pos passer_sample) PAWN AND forward_file_bb WHITE 36 = 0x100000000000
   \<and> passed_bonus WHITE 36 passer_sample = (73, 37)
   \<and> passed_bonus_scaled WHITE 36 passer_sample = (36, 18)"
proof -
  have p: "pawn_passed (pos passer_sample) WHITE (sq_plus 36 (pawn_push WHITE))"
    by (simp add: passer_sample_def passer_position_def sample_defs)
  have f: "pieces_pt (pos passer_sample) PAWN AND forward_file_bb WHITE 36 = 0x100000000000"
    by code_simp
  have b: "passed_bonus WHITE 36 passer_sample = (73, 37)"
    by code_simp
  have s: "passed_bonus_scaled WHITE 36 passer_sample = (36, 18)"
    using passed_pawn_scale_down [of WHITE 36 passer_sample 0] p f b by simp
  from p f b s show ?thesis by simp
qed

subsection \<open>The driver\<close>

lemma abs_sdiv_eq: "\<bar>(a::int) sdiv b\<bar> = \<bar>a\<bar> div \<bar>b\<bar>"
proof -
  have "0 \<le> \<bar>a\<bar> div \<bar>b\<bar>"
    by (cases "b = 0") (simp_all add: pos_imp_zdiv_nonneg_iff)
  then show ?thesis
    by (cases "a = 0"; cases "b = 0") (simp_all add: signed_divide_int_def abs_mult abs_sgn_eq)
qed

lemma abs_sdiv_le: "\<bar>(a::int) sdiv b\<bar> \<le> \<bar>a\<bar>"
proof (cases "a = 0")
  case True
  then show ?thesis by simp
next
  case False
  then show ?thesis
    unfolding abs_sdiv_eq using int_div_le_self [of "\<bar>a\<bar>" "\<bar>b\<bar>"] by force
qed

text \<open>
  On 16-bit score components, a phase between 0 and 128 and a scale factor between 0 and
  128, every intermediate value of the interpolation of lines 1702 to 1705 fits a 32-bit
  \<^verbatim>\<open>int\<close>, so the unbounded integers of the embedding compute what the machine computes.
\<close>

lemma interpolation_in_int32:
  fixes mg eg phase sf :: int
  assumes "\<bar>mg\<bar> \<le> 32767" "\<bar>eg\<bar> \<le> 32767" "0 \<le> phase" "phase \<le> 128" "0 \<le> sf" "sf \<le> 128"
  shows "\<bar>mg * phase\<bar> < 2 ^ 31
    \<and> \<bar>eg * (128 - phase) * sf\<bar> < 2 ^ 31
    \<and> \<bar>mg * phase + (eg * (128 - phase) * sf) sdiv 64\<bar> < 2 ^ 31"
proof -
  have a: "\<bar>mg * phase\<bar> \<le> 32767 * 128"
    unfolding abs_mult using assms by (intro mult_mono) auto
  have "\<bar>eg * (128 - phase)\<bar> \<le> 32767 * 128"
    unfolding abs_mult using assms by (intro mult_mono) auto
  then have b: "\<bar>eg * (128 - phase) * sf\<bar> \<le> 32767 * 128 * 128"
    unfolding abs_mult [of "eg * (128 - phase)" sf] using assms by (intro mult_mono) auto
  have "\<bar>(eg * (128 - phase) * sf) sdiv 64\<bar> \<le> \<bar>eg * (128 - phase) * sf\<bar>"
    by (rule abs_sdiv_le)
  with b have c: "\<bar>(eg * (128 - phase) * sf) sdiv 64\<bar> \<le> 32767 * 128 * 128"
    by linarith
  from a b c show ?thesis by (simp only: abs_le_iff abs_less_iff) simp
qed

text \<open>
  Claim C1. When \<^verbatim>\<open>value\<close> reaches the interpolation (no variant end, no specialized
  evaluation, no lazy exit), it returns \<open>v = (mg * phase + eg * (128 - phase) * sf / 64) / 128\<close>
  in C++ integer arithmetic (products first, divisions truncating), where \<open>(mg, eg)\<close> is the
  final accumulated score, \<open>phase\<close> the game phase of the material entry and \<open>sf\<close> the
  result of \<^verbatim>\<open>evaluate_scale_factor\<close> on the final endgame value; \<open>v\<close> for White to move,
  \<open>-v\<close> for Black to move.
\<close>

theorem value_interpolation:
  assumes "\<not> is_variant_end (pos ev)"
    and "\<not> specialized_eval_exists (Material_probe g (pos ev))"
    and "\<not> (variant (pos ev) = CHESS_VARIANT \<and> \<bar>lazy_value g ev\<bar> > LazyThreshold)"
  shows "value g ev =
      (let mg = mg_value (final_score g ev);
           eg = eg_value (final_score g ev);
           phase = game_phase (Material_probe g (pos ev));
           sf = evaluate_scale_factor g (final_state g ev) eg;
           v = (mg * phase + (eg * (128 - phase) * sf) sdiv 64) sdiv 128
       in if side_to_move (pos ev) = WHITE then v else - v)
    \<and> fst (value_exit g ev) = FullEvaluation"
  using assms
  by (simp add: value_def value_exit_def Let_def PHASE_MIDGAME_def SCALE_FACTOR_NORMAL_def)

text \<open>
  The position with the pawns on e5 and e6, phase 32: the final score is (35, 0), the
  scale factor 64, and the value \<open>(35 * 32 + 0) / 128 = 8\<close>.
\<close>

theorem value_interpolation_witness:
  "\<not> is_variant_end (pos passer_sample)
   \<and> \<not> specialized_eval_exists (Material_probe passer_globals (pos passer_sample))
   \<and> lazy_value passer_globals passer_sample = 50
   \<and> final_score passer_globals passer_sample = make_score 35 0
   \<and> game_phase (Material_probe passer_globals (pos passer_sample)) = 32
   \<and> value passer_globals passer_sample = 8"
proof -
  have a: "\<not> is_variant_end (pos passer_sample)"
    by (simp add: passer_sample_def passer_position_def sample_defs)
  have b: "\<not> specialized_eval_exists (Material_probe passer_globals (pos passer_sample))"
    by (simp add: passer_globals_def sample_defs)
  have l: "lazy_value passer_globals passer_sample = 50"
    by code_simp
  have c: "\<not> (variant (pos passer_sample) = CHESS_VARIANT
              \<and> \<bar>lazy_value passer_globals passer_sample\<bar> > LazyThreshold)"
    by (simp add: l LazyThreshold_def)
  have f: "final_score passer_globals passer_sample = make_score 35 0"
    by code_simp
  have p: "game_phase (Material_probe passer_globals (pos passer_sample)) = 32"
    by (simp add: passer_globals_def sample_defs)
  have w: "side_to_move (pos passer_sample) = WHITE"
    by (simp add: passer_sample_def passer_position_def sample_defs)
  from value_interpolation [OF a b c] have "value passer_globals passer_sample = 8"
    by (simp add: f p w Let_def)
  with a b l f p show ?thesis by simp
qed

text \<open>
  Claim C2. Of the evaluations that reach the test of line 1649 (no variant end, no
  specialized evaluation), \<^verbatim>\<open>value\<close> leaves by the lazy return exactly when the variant
  is standard chess and \<open>v = (mg + eg) / 2\<close> of the score seeded with piece-square score,
  imbalance, contempt and pawn score has \<open>|v| > 1500\<close>. It then returns \<open>v\<close> for White to
  move and \<open>-v\<close> for Black to move, a value that no later sub-evaluation enters. In every
  other variant the lazy return is never taken.
\<close>

theorem value_lazy_exit:
  "(fst (value_exit g ev) = LazyExit \<longleftrightarrow>
      \<not> is_variant_end (pos ev)
      \<and> \<not> specialized_eval_exists (Material_probe g (pos ev))
      \<and> variant (pos ev) = CHESS_VARIANT
      \<and> \<bar>lazy_value g ev\<bar> > 1500)
   \<and> lazy_value g ev =
       (mg_value (seed_score g ev) + eg_value (seed_score g ev)) sdiv 2
   \<and> seed_score g ev =
       psq_score (pos ev) + imbalance (Material_probe g (pos ev)) + Contempt g
       + pawns_score (Pawns_probe g (pos ev))
   \<and> (fst (value_exit g ev) = LazyExit \<longrightarrow>
        value g ev = (if side_to_move (pos ev) = WHITE then lazy_value g ev
                      else - lazy_value g ev))
   \<and> (variant (pos ev) \<noteq> CHESS_VARIANT \<longrightarrow> fst (value_exit g ev) \<noteq> LazyExit)"
  by (simp add: value_def value_exit_def Let_def LazyThreshold_def lazy_value_def
      seed_score_def)

text \<open>
  A seed of (3800, 4001) with Black to move leaves lazily with \<open>-3900\<close>; the Horde sample
  is evaluated in full.
\<close>

theorem value_lazy_exit_witness:
  "variant (pos lazy_sample) = CHESS_VARIANT
   \<and> lazy_value sample_globals lazy_sample = 3900
   \<and> fst (value_exit sample_globals lazy_sample) = LazyExit
   \<and> value sample_globals lazy_sample = - 3900
   \<and> variant (pos horde_sample) = HORDE_VARIANT
   \<and> fst (value_exit sample_globals horde_sample) = FullEvaluation"
proof -
  have v: "variant (pos lazy_sample) = CHESS_VARIANT"
    by (simp add: lazy_sample_def sample_defs)
  have e: "\<not> is_variant_end (pos lazy_sample)"
    by (simp add: lazy_sample_def sample_defs)
  have s: "\<not> specialized_eval_exists (Material_probe sample_globals (pos lazy_sample))"
    by (simp add: sample_defs)
  have l: "lazy_value sample_globals lazy_sample = 3900"
    by code_simp
  have b: "side_to_move (pos lazy_sample) = BLACK"
    by (simp add: lazy_sample_def sample_defs)
  have x: "fst (value_exit sample_globals lazy_sample) = LazyExit"
    using value_lazy_exit [of sample_globals lazy_sample] v e s l by simp
  have r: "value sample_globals lazy_sample = - 3900"
    using value_lazy_exit [of sample_globals lazy_sample] x l b by simp
  have h: "variant (pos horde_sample) = HORDE_VARIANT"
    by (simp add: horde_sample_def sample_defs)
  have f: "fst (value_exit sample_globals horde_sample) = FullEvaluation"
    by code_simp
  from v l x r h f show ?thesis by simp
qed

end
